theory Spec2Isabelle
  imports Main "HOL-Library.Sublist"
begin

section \<open>JavaScript values\<close>

text \<open>
  The journal is a TypeScript program; its types are erased when it runs, and the task
  field of a persisted entry and the reply of the language model are whatever JSON they
  happen to be. Such values are modelled as JSON. A JavaScript string is modelled as a
  \<^typ>\<open>string\<close>; text beyond ASCII is written as its UTF-8 bytes (the program only
  concatenates strings, tests them for emptiness and searches them for ASCII words, and
  these agree on UTF-8 and on JavaScript's UTF-16). A JSON number is an integer here;
  how JavaScript prints a number (all digits, or an exponent from \<open>10^21\<close> on) is left
  to the platform, see \<open>Number_toString\<close> below.
\<close>

datatype json =
    JNull
  | JBool bool
  | JNum int
  | JStr string
  | JArr "json list"
  | JObj "(string \<times> json) list"

text \<open>\<^verbatim>\<open>typeof v === 'string'\<close>\<close>

fun is_string :: "json \<Rightarrow> bool" where
  "is_string (JStr s) = True"
| "is_string v = False"

text \<open>Everything raised in this program is an \<open>Error\<close> with a message.\<close>

datatype js_error = Error string

text \<open>
  Reading a property of a JSON value: \<open>v.k\<close> raises a TypeError on \<open>undefined\<close>
  (\<open>None\<close>) and \<open>null\<close>, finds the property of an object (an object lists each of its
  names once, as \<open>JSON.parse\<close> leaves it), and is \<open>undefined\<close> on every other value.
  None of the names the program reads from such a value (\<open>id\<close>, \<open>text\<close>, \<open>error\<close>,
  \<open>message\<close>, \<open>choices\<close>, \<open>content\<close> and the fields of the analysis) is one that
  objects inherit. The wording of the TypeError is the engine's; it is V8's here.
\<close>

fun get_prop :: "json option \<Rightarrow> string \<Rightarrow> js_error + json option" where
  "get_prop None k =
     Inl (Error (''Cannot read properties of undefined (reading '' @ [CHR 0x27] @ k @ [CHR 0x27] @ '')''))"
| "get_prop (Some JNull) k =
     Inl (Error (''Cannot read properties of null (reading '' @ [CHR 0x27] @ k @ [CHR 0x27] @ '')''))"
| "get_prop (Some (JObj kvs)) k = Inr (map_of kvs k)"
| "get_prop (Some v) k = Inr None"

text \<open>
  The decimal numeral a template literal writes for a non-negative integer below
  \<open>10^21\<close>, as every array index and every reading of the clock is.
\<close>

definition digit_char :: "nat \<Rightarrow> char" where
  "digit_char d = char_of (48 + d)"

function string_of_nat :: "nat \<Rightarrow> string" where
  "string_of_nat n =
     (if n < 10 then [digit_char n] else string_of_nat (n div 10) @ [digit_char (n mod 10)])"
  by pat_completeness auto
termination
  by (relation "measure (\<lambda>n. n)") auto

section \<open>The data model (types.ts)\<close>

text \<open>
  \<^verbatim>\<open>interface TaskItem { id: string; text: string; completed: boolean }\<close>.
  A task item is the object literal the program builds; its \<open>text\<close> is whatever value
  the element it was made from had.
\<close>

definition TaskItem :: "string \<Rightarrow> json \<Rightarrow> bool \<Rightarrow> json" where
  "TaskItem i t c = JObj [(''id'', JStr i), (''text'', t), (''completed'', JBool c)]"

text \<open>
  \<^verbatim>\<open>interface JournalEntry\<close>. The field \<open>id\<close> is \<open>entry_id\<close> here. The
  task field of a persisted entry is absent (\<open>None\<close>) or an array of JSON values: an
  entry written by an older version holds plain strings.
\<close>

record JournalEntry =
  entry_id :: string
  date :: string
  audioBase64 :: "string option"
  images :: "string list"
  transcription :: string
  moodEmoji :: string
  moodDescription :: string
  moodKey :: string
  moodScore :: int
  tasks :: "json list option"
  createdAt :: nat

text \<open>
  \<^verbatim>\<open>interface AnalysisResult\<close>, with fields prefixed \<open>ar_\<close>. The fields carry the
  values the provider sent, of whatever JSON kind; the transcription may be \<open>undefined\<close>
  (\<open>None\<close>), the other fields are always given a value.
\<close>

record AnalysisResult =
  ar_transcription :: "json option"
  ar_moodEmoji :: json
  ar_moodDescription :: json
  ar_moodKey :: json
  ar_moodScore :: json
  ar_tasks :: json


section \<open>Task normalization\<close>

text \<open>
  The calendar view (\<open>getTasksForEntry\<close>):
  \<^verbatim>\<open>
  if (!entry.tasks) return [];
  if (entry.tasks.length > 0 && typeof entry.tasks[0] === 'string') {
      return (entry.tasks as unknown as string[]).map((t, i) => ({
          id: `legacy-${entry.date}-${i}`, text: t, completed: false }));
  }
  return entry.tasks;
  \<close>
\<close>

definition getTasksForEntry :: "JournalEntry \<Rightarrow> json list" where
  "getTasksForEntry entry =
     (case tasks entry of
        None \<Rightarrow> []
      | Some ts \<Rightarrow>
          if 0 < length ts \<and> is_string (hd ts)
          then map (\<lambda>(i, t). TaskItem (''legacy-'' @ date entry @ ''-'' @ string_of_nat i) t False)
                 (enumerate 0 ts)
          else ts)"

text \<open>
  The record view (\<open>normalizeTasks\<close>):
  \<^verbatim>\<open>
  if (!tasks) return [];
  if (tasks.length === 0) return [];
  if (typeof tasks[0] === 'string') {
      return tasks.map((t, i) => ({ id: `legacy-${Date.now()}-${i}`, text: t, completed: false }));
  }
  return tasks;
  \<close>
  \<open>Date.now()\<close> is read once for each element: \<open>now i\<close> is the clock's reading, in
  milliseconds, in the call for the element at index \<open>i\<close>.
\<close>

definition normalizeTasks :: "(nat \<Rightarrow> nat) \<Rightarrow> json list option \<Rightarrow> json list" where
  "normalizeTasks now tasks' =
     (case tasks' of
        None \<Rightarrow> []
      | Some [] \<Rightarrow> []
      | Some (t0 # ts) \<Rightarrow>
          if is_string t0
          then map (\<lambda>(i, t). TaskItem (''legacy-'' @ string_of_nat (now i) @ ''-'' @ string_of_nat i) t False)
                 (enumerate 0 (t0 # ts))
          else t0 # ts)"

section \<open>The merge after an analysis (handleAnalyze)\<close>




section \<open>The entry store (services/storage.ts)\<close>

text \<open>
  The browser's local storage, as far as the program uses it: the item
  \<^verbatim>\<open>soullog_entries_v1\<close> holds the serialized collection of entries (modelled as the
  collection itself; \<open>None\<close> when the item has never been written), the item
  \<^verbatim>\<open>openai_api_key\<close> the credential the user entered.
\<close>

record localStorage =
  soullog_entries_v1 :: "JournalEntry list option"
  openai_api_key :: "string option"

text \<open>
  \<^verbatim>\<open>
  const data = localStorage.getItem(STORAGE_KEY);
  return data ? JSON.parse(data) : [];
  \<close>
\<close>

definition getEntries :: "localStorage \<Rightarrow> JournalEntry list" where
  "getEntries ls = (case soullog_entries_v1 ls of None \<Rightarrow> [] | Some es \<Rightarrow> es)"

definition storage_full_alert :: string where
  "storage_full_alert =
     [CHR 0xE5, CHR 0xAD, CHR 0x98, CHR 0xE5, CHR 0x82, CHR 0xA8, CHR 0xE7, CHR 0xA9,
      CHR 0xBA, CHR 0xE9, CHR 0x97, CHR 0xB4, CHR 0xE5, CHR 0xB7, CHR 0xB2, CHR 0xE6, CHR 0xBB,
      CHR 0xA1, CHR 0xEF, CHR 0xBC, CHR 0x8C, CHR 0xE6, CHR 0x97, CHR 0xA0, CHR 0xE6, CHR 0xB3,
      CHR 0x95, CHR 0xE4, CHR 0xBF, CHR 0x9D, CHR 0xE5, CHR 0xAD, CHR 0x98, CHR 0xE6, CHR 0x9B,
      CHR 0xB4, CHR 0xE5, CHR 0xA4, CHR 0x9A, CHR 0xE5, CHR 0xBD, CHR 0x95, CHR 0xE9, CHR 0x9F,
      CHR 0xB3, CHR 0xE6, CHR 0x88, CHR 0x96, CHR 0xE5, CHR 0x9B, CHR 0xBE, CHR 0xE7, CHR 0x89,
      CHR 0x87, CHR 0xE3, CHR 0x80, CHR 0x82, CHR 0xE8, CHR 0xAF, CHR 0xB7, CHR 0xE6, CHR 0xB8,
      CHR 0x85, CHR 0xE7, CHR 0x90, CHR 0x86, CHR 0xE6, CHR 0xB5, CHR 0x8F, CHR 0xE8, CHR 0xA7,
      CHR 0x88, CHR 0xE5, CHR 0x99, CHR 0xA8, CHR 0xE7, CHR 0xBC, CHR 0x93, CHR 0xE5, CHR 0xAD,
      CHR 0x98, CHR 0xE3, CHR 0x80, CHR 0x82]"

text \<open>
  \<^verbatim>\<open>
  const existing = getEntries();
  const filtered = existing.filter(e => e.date !== entry.date);
  filtered.push(entry);
  try { localStorage.setItem(STORAGE_KEY, JSON.stringify(filtered)); }
  catch (e) { alert("..."); console.error("Storage full", e); }
  \<close>
  \<open>setItem\<close> raises when the browser refuses the write (the quota is exceeded):
  \<open>quota es\<close> says whether the browser accepts the collection \<open>es\<close>. The result is the
  storage afterwards and the alert shown, if any.
\<close>

definition saveEntry ::
  "(JournalEntry list \<Rightarrow> bool) \<Rightarrow> localStorage \<Rightarrow> JournalEntry \<Rightarrow> localStorage \<times> string option" where
  "saveEntry quota ls entry =
     (let existing = getEntries ls;
          filtered = filter (\<lambda>e. date e \<noteq> date entry) existing @ [entry]
      in if quota filtered
         then (ls\<lparr>soullog_entries_v1 := Some filtered\<rparr>, None)
         else (ls, Some storage_full_alert))"

text \<open>\<^verbatim>\<open>return entries.find(e => e.date === date);\<close>\<close>

definition getEntryByDate :: "localStorage \<Rightarrow> string \<Rightarrow> JournalEntry option" where
  "getEntryByDate ls d = find (\<lambda>e. date e = d) (getEntries ls)"

text \<open>
  \<^verbatim>\<open>
  const existing = getEntries();
  const filtered = existing.filter(e => e.date !== date);
  localStorage.setItem(STORAGE_KEY, JSON.stringify(filtered));
  \<close>
  Nothing catches here: a refused write leaves the storage as it was and the error goes
  to the caller. The result is the storage afterwards and the error raised, if any.
\<close>

definition deleteEntry ::
  "(JournalEntry list \<Rightarrow> bool) \<Rightarrow> localStorage \<Rightarrow> string \<Rightarrow> localStorage \<times> js_error option" where
  "deleteEntry quota ls d =
     (let existing = getEntries ls;
          filtered = filter (\<lambda>e. date e \<noteq> d) existing
      in if quota filtered
         then (ls\<lparr>soullog_entries_v1 := Some filtered\<rparr>, None)
         else (ls, Some (Error ''QuotaExceededError'')))"

section \<open>Mood colours and labels (utils.ts)\<close>

datatype MoodIntensity = Light | Medium | Strong

record MoodColorDefinition =
  light :: string
  medium :: string
  strong :: string

text \<open>\<open>MOOD_PALETTE[key][type]\<close> for a key the palette defines.\<close>

fun shade :: "MoodColorDefinition \<Rightarrow> MoodIntensity \<Rightarrow> string" where
  "shade d Light = light d"
| "shade d Medium = medium d"
| "shade d Strong = strong d"

text \<open>The properties the two object literals spell out.\<close>

definition MOOD_PALETTE :: "(string \<times> MoodColorDefinition) list" where
  "MOOD_PALETTE =
     [(''happy'', \<lparr>light = ''#FFF5D1'', medium = ''#FFD166'', strong = ''#F4B942''\<rparr>),
      (''calm'', \<lparr>light = ''#E0F5F5'', medium = ''#A8DADC'', strong = ''#457B9D''\<rparr>),
      (''neutral'', \<lparr>light = ''#F2F0E9'', medium = ''#A3A398'', strong = ''#5C5C54''\<rparr>),
      (''sad'', \<lparr>light = ''#E3E6F5'', medium = ''#7D8CC4'', strong = ''#5C6AA8''\<rparr>),
      (''anxious'', \<lparr>light = ''#FFEBD6'', medium = ''#F4A261'', strong = ''#E76F51''\<rparr>),
      (''angry'', \<lparr>light = ''#FFE0DB'', medium = ''#E76F51'', strong = ''#C0392B''\<rparr>),
      (''tired'', \<lparr>light = ''#E8EDF2'', medium = ''#94A3B8'', strong = ''#475569''\<rparr>)]"

definition MOOD_LABELS :: "(string \<times> string) list" where
  "MOOD_LABELS =
     [(''happy'', [CHR 0xE5, CHR 0xBC, CHR 0x80, CHR 0xE5, CHR 0xBF, CHR 0x83]),
      (''calm'', [CHR 0xE5, CHR 0xB9, CHR 0xB3, CHR 0xE9, CHR 0x9D, CHR 0x99]),
      (''neutral'', [CHR 0xE5, CHR 0xB9, CHR 0xB3, CHR 0xE6, CHR 0xB7, CHR 0xA1]),
      (''sad'', [CHR 0xE4, CHR 0xBD, CHR 0x8E, CHR 0xE8, CHR 0x90, CHR 0xBD]),
      (''anxious'', [CHR 0xE7, CHR 0x84, CHR 0xA6, CHR 0xE8, CHR 0x99, CHR 0x91]),
      (''angry'', [CHR 0xE7, CHR 0x94, CHR 0x9F, CHR 0xE6, CHR 0xB0, CHR 0x94]),
      (''tired'', [CHR 0xE7, CHR 0x96, CHR 0xB2, CHR 0xE6, CHR 0x83, CHR 0xAB])]"

text \<open>
  Both tables are plain JavaScript objects, and the program reads them with
  \<open>table[key]\<close>. Such a read also finds the properties every object inherits from
  \<open>Object.prototype\<close>: for those names the read gives a function (for \<open>__proto__\<close> the
  prototype itself), which counts as true in a condition and has no property \<open>light\<close>,
  \<open>medium\<close> or \<open>strong\<close>.
\<close>

definition Object_prototype :: "string list" where
  "Object_prototype =
     [''constructor'', ''__defineGetter__'', ''__defineSetter__'', ''hasOwnProperty'',
      ''__lookupGetter__'', ''__lookupSetter__'', ''isPrototypeOf'', ''propertyIsEnumerable'',
      ''toString'', ''valueOf'', ''__proto__'', ''toLocaleString'']"

datatype 'a property = Own 'a | Inherited

definition get_property :: "(string \<times> 'a) list \<Rightarrow> string \<Rightarrow> 'a property option" where
  "get_property obj k =
     (case map_of obj k of
        Some v \<Rightarrow> Some (Own v)
      | None \<Rightarrow> if k \<in> set Object_prototype then Some Inherited else None)"

text \<open>
  \<open>MOOD_PALETTE[safeKey][type]\<close>: the shade of a palette entry, \<open>undefined\<close> (\<open>None\<close>)
  when the property read is an inherited one, a TypeError when nothing was read.
\<close>

fun shade_of :: "MoodColorDefinition property option \<Rightarrow> MoodIntensity \<Rightarrow> js_error + string option" where
  "shade_of (Some (Own d)) ty = Inr (Some (shade d ty))"
| "shade_of (Some Inherited) ty = Inr None"
| "shade_of None ty = Inl (Error ''Cannot read properties of undefined'')"

text \<open>\<^verbatim>\<open>const safeKey = MOOD_PALETTE[key] ? key : 'neutral';\<close>\<close>

definition safeKey :: "string \<Rightarrow> string" where
  "safeKey key = (if get_property MOOD_PALETTE key \<noteq> None then key else ''neutral'')"

text \<open>
  \<^verbatim>\<open>return MOOD_PALETTE[safeKey][type];\<close> The score is not used. Every caller
  passes the tier (the parameter's default is \<open>'medium'\<close>).
\<close>

definition getMoodColor :: "string \<Rightarrow> int \<Rightarrow> MoodIntensity \<Rightarrow> js_error + string option" where
  "getMoodColor key score ty = shade_of (get_property MOOD_PALETTE (safeKey key)) ty"

text \<open>
  \<^verbatim>\<open>
  if (score >= 8) return MOOD_PALETTE[safeKey].strong;
  if (score >= 4) return MOOD_PALETTE[safeKey].medium;
  return MOOD_PALETTE[safeKey].light;
  \<close>
\<close>

definition getMoodColorByScore :: "string \<Rightarrow> int \<Rightarrow> js_error + string option" where
  "getMoodColorByScore key score =
     (if score \<ge> 8 then shade_of (get_property MOOD_PALETTE (safeKey key)) Strong
      else if score \<ge> 4 then shade_of (get_property MOOD_PALETTE (safeKey key)) Medium
      else shade_of (get_property MOOD_PALETTE (safeKey key)) Light)"

text \<open>
  The mood label of the record view, before the intensity is appended:
  \<^verbatim>\<open>
  lang === 'en' ? `${moodData.key} ...` : `${MOOD_LABELS[moodData.key] || moodData.key} ...`
  \<close>
  An empty label counts as false, an inherited property as true.
\<close>

datatype lang = En | Zh

definition moodLabel :: "lang \<Rightarrow> string \<Rightarrow> string property" where
  "moodLabel l key =
     (case l of
        En \<Rightarrow> Own key
      | Zh \<Rightarrow>
          (case get_property MOOD_LABELS key of
             Some (Own label) \<Rightarrow> if label \<noteq> [] then Own label else Own key
           | Some Inherited \<Rightarrow> Inherited
           | None \<Rightarrow> Own key))"

section \<open>The analysis client (services/geminiService.ts)\<close>

subsection \<open>JavaScript's conversions\<close>

text \<open>What counts as true in \<open>v || d\<close> and in a condition.\<close>

fun truthy :: "json \<Rightarrow> bool" where
  "truthy JNull = False"
| "truthy (JBool b) = b"
| "truthy (JNum n) = (n \<noteq> 0)"
| "truthy (JStr s) = (s \<noteq> [])"
| "truthy (JArr xs) = True"
| "truthy (JObj kvs) = True"

text \<open>\<open>v || d\<close>, where \<open>v\<close> may be \<open>undefined\<close> (\<open>None\<close>).\<close>

definition or_else :: "json option \<Rightarrow> json \<Rightarrow> json" where
  "or_else v d = (case v of None \<Rightarrow> d | Some x \<Rightarrow> if truthy x then x else d)"

text \<open>The same, where \<open>d\<close> may be \<open>undefined\<close> too.\<close>

definition or_maybe :: "json option \<Rightarrow> json option \<Rightarrow> json option" where
  "or_maybe v d = (case v of None \<Rightarrow> d | Some x \<Rightarrow> if truthy x then Some x else d)"

text \<open>The digits of an integer, which is how JavaScript prints one below \<open>10^21\<close>.\<close>

definition string_of_int :: "int \<Rightarrow> string" where
  "string_of_int n = (if n < 0 then ''-'' @ string_of_nat (nat (- n)) else string_of_nat (nat n))"

fun join :: "string list \<Rightarrow> string" where
  "join [] = []"
| "join [s] = s"
| "join (s # t # ss) = s @ '','' @ join (t # ss)"

text \<open>
  \<open>String(v)\<close>, the conversion a template literal, \<open>new Error(v)\<close> and
  \<open>JSON.parse(v)\<close> apply to a value that is not a string. An array is its elements
  joined by commas, with nothing for \<open>null\<close>. A number is printed by the platform:
  \<open>num\<close> is its \<open>Number.prototype.toString\<close>.
\<close>

primrec js_to_string :: "(int \<Rightarrow> string) \<Rightarrow> json \<Rightarrow> string" where
  "js_to_string num JNull = ''null''"
| "js_to_string num (JBool b) = (if b then ''true'' else ''false'')"
| "js_to_string num (JNum n) = num n"
| "js_to_string num (JStr s) = s"
| "js_to_string num (JArr xs) =
     join (map (\<lambda>(x, s). if x = JNull then [] else s) (zip xs (map (js_to_string num) xs)))"
| "js_to_string num (JObj kvs) = ''[object Object]''"

definition string_of_value :: "(int \<Rightarrow> string) \<Rightarrow> json option \<Rightarrow> string" where
  "string_of_value num v = (case v of None \<Rightarrow> ''undefined'' | Some x \<Rightarrow> js_to_string num x)"

text \<open>\<open>msg.includes(pat)\<close>\<close>

fun js_includes :: "string \<Rightarrow> string \<Rightarrow> bool" where
  "js_includes [] pat = (pat = [])"
| "js_includes (c # cs) pat = (prefix pat (c # cs) \<or> js_includes cs pat)"

text \<open>\<open>v[0]\<close>: the first element of an array, the first character of a string.\<close>

fun get_index0 :: "json option \<Rightarrow> js_error + json option" where
  "get_index0 None = Inl (Error (''Cannot read properties of undefined (reading '' @ [CHR 0x27] @ ''0'' @ [CHR 0x27] @ '')''))"
| "get_index0 (Some JNull) = Inl (Error (''Cannot read properties of null (reading '' @ [CHR 0x27] @ ''0'' @ [CHR 0x27] @ '')''))"
| "get_index0 (Some (JArr xs)) = Inr (case xs of [] \<Rightarrow> None | x # _ \<Rightarrow> Some x)"
| "get_index0 (Some (JStr s)) = Inr (case s of [] \<Rightarrow> None | c # _ \<Rightarrow> Some (JStr [c]))"
| "get_index0 (Some (JObj kvs)) = Inr (map_of kvs ''0'')"
| "get_index0 (Some v) = Inr None"

text \<open>A step that may raise, followed by the rest of the block.\<close>

definition then_try :: "js_error + 'a \<Rightarrow> ('a \<Rightarrow> js_error + 'b) \<Rightarrow> js_error + 'b" where
  "then_try r f = (case r of Inl e \<Rightarrow> Inl e | Inr v \<Rightarrow> f v)"

subsection \<open>The provider and the browser\<close>

text \<open>
  A request to the provider: the chat endpoint takes the bearer credential, the model, the
  messages and the JSON-mode flag; the transcription endpoint the credential and the file
  (the model is always \<open>whisper-1\<close>).
\<close>

datatype content_part = text_part string | image_url_part string

datatype content = Plain string | Parts "content_part list"

datatype request =
    chat_completions string string "(string \<times> content) list" bool
  | audio_transcriptions string string

text \<open>
  What \<open>fetch\<close> and \<open>response.json()\<close> come to: \<open>fetch\<close> rejects with a message
  (no network); or the response is not \<open>ok\<close>, or it is \<open>ok\<close>, and in both cases its
  body is JSON of any shape, or is not JSON (then \<open>response.json()\<close> raises, with a
  message). A request that never settles is not modelled.
\<close>

datatype reply = Rejected string | NotOk "string + json" | Ok "string + json"

text \<open>
  Everything outside the program that the analysis depends on: the local storage, the
  build-time \<open>process.env.API_KEY\<close> (\<open>None\<close> when undefined), the provider's answer to
  each request, and three functions of the platform taken as they are: \<open>JSON.parse\<close>
  (the value, or the message of the SyntaxError), the printing of a number, and the
  decoding of the audio's data URL into a file in \<open>dataURLtoFile\<close> (the file, or the
  message of the error \<open>atob\<close> raises).
\<close>

record environment =
  storage :: localStorage
  process_env_API_KEY :: "string option"
  fetch :: "request \<Rightarrow> reply"
  JSON_parse :: "string \<Rightarrow> string + json"
  Number_toString :: "int \<Rightarrow> string"
  dataURLtoFile :: "string \<Rightarrow> string + string"

subsection \<open>The string literals of the service\<close>

text \<open>
  The Chinese and emoji literals of the service, byte for byte in UTF-8:
  \<^item> \<open>voice_record_label\<close>: two line feeds and the bracketed label "voice record",
    put between the typed text and the transcribed speech;
  \<^item> \<open>whisper_quota_note\<close>, \<open>whisper_failed_note\<close>: a line feed and the bracketed
    notes "speech-to-text demo: API quota exhausted" and "speech-to-text failed: please
    check the Key";
  \<^item> \<open>demo_transcription\<close>, \<open>demo_emoji\<close>, \<open>demo_description\<close>: the transcription
    (a few sentences about a fine day and a walk in the park), the emoji (sun behind a
    small cloud) and the description ("demo mode (Key required)") of the mock;
  \<^item> \<open>memo_emoji\<close>, \<open>recording_description\<close>: the defaults of a reply without emoji
    (the memo) or description ("recording");
  \<^item> \<open>analysis_unfinished\<close>, \<open>gear_emoji\<close>, \<open>configure_key_description\<close>: the
    transcription ("[analysis not finished]"), the emoji (the gear) and the description
    ("please configure the Key") of the placeholder the \<open>catch\<close> block returns;
  \<^item> \<open>schema_instruction\<close>: the instruction block that ends the request.
\<close>

definition voice_record_label :: string where
  "voice_record_label =
     [CHR 0x0A, CHR 0x0A]
     @ ''[''
     @ [CHR 0xE8, CHR 0xAF, CHR 0xAD, CHR 0xE9, CHR 0x9F, CHR 0xB3, CHR 0xE8, CHR 0xAE,
      CHR 0xB0, CHR 0xE5, CHR 0xBD, CHR 0x95]
     @ '']: ''"

definition whisper_quota_note :: string where
  "whisper_quota_note =
     [CHR 0x0A]
     @ ''(''
     @ [CHR 0xE8, CHR 0xAF, CHR 0xAD, CHR 0xE9, CHR 0x9F, CHR 0xB3, CHR 0xE8, CHR 0xBD,
      CHR 0xAC, CHR 0xE6, CHR 0x96, CHR 0x87, CHR 0xE5, CHR 0xAD, CHR 0x97, CHR 0xE6,
      CHR 0xBC, CHR 0x94, CHR 0xE7, CHR 0xA4, CHR 0xBA, CHR 0xEF, CHR 0xBC, CHR 0x9A]
     @ ''API''
     @ [CHR 0xE9, CHR 0xA2, CHR 0x9D, CHR 0xE5, CHR 0xBA, CHR 0xA6, CHR 0xE5, CHR 0xB7,
      CHR 0xB2, CHR 0xE8, CHR 0x80, CHR 0x97, CHR 0xE5, CHR 0xB0, CHR 0xBD]
     @ '')''"

definition whisper_failed_note :: string where
  "whisper_failed_note =
     [CHR 0x0A]
     @ ''(''
     @ [CHR 0xE8, CHR 0xAF, CHR 0xAD, CHR 0xE9, CHR 0x9F, CHR 0xB3, CHR 0xE8, CHR 0xBD,
      CHR 0xAC, CHR 0xE6, CHR 0x96, CHR 0x87, CHR 0xE5, CHR 0xAD, CHR 0x97, CHR 0xE5,
      CHR 0xA4, CHR 0xB1, CHR 0xE8, CHR 0xB4, CHR 0xA5, CHR 0xEF, CHR 0xBC, CHR 0x9A,
      CHR 0xE8, CHR 0xAF, CHR 0xB7, CHR 0xE6, CHR 0xA3, CHR 0x80, CHR 0xE6, CHR 0x9F,
      CHR 0xA5]
     @ ''Key)''"

definition demo_transcription :: string where
  "demo_transcription =
     [CHR 0xE4, CHR 0xBB, CHR 0x8A, CHR 0xE5, CHR 0xA4, CHR 0xA9, CHR 0xE5, CHR 0xA4,
      CHR 0xA9, CHR 0xE6, CHR 0xB0, CHR 0x94, CHR 0xE7, CHR 0x9C, CHR 0x9F, CHR 0xE4,
      CHR 0xB8, CHR 0x8D, CHR 0xE9, CHR 0x94, CHR 0x99, CHR 0xEF, CHR 0xBC, CHR 0x8C,
      CHR 0xE5, CHR 0xBF, CHR 0x83, CHR 0xE6, CHR 0x83, CHR 0x85, CHR 0xE4, CHR 0xB9,
      CHR 0x9F, CHR 0xE5, CHR 0xBE, CHR 0x88, CHR 0xE5, CHR 0xA5, CHR 0xBD, CHR 0xE3,
      CHR 0x80, CHR 0x82, CHR 0xE8, CHR 0x99, CHR 0xBD, CHR 0xE7, CHR 0x84, CHR 0xB6,
      CHR 0xE5, CHR 0xB7, CHR 0xA5, CHR 0xE4, CHR 0xBD, CHR 0x9C, CHR 0xE6, CHR 0x9C,
      CHR 0x89, CHR 0xE7, CHR 0x82, CHR 0xB9, CHR 0xE5, CHR 0xBF, CHR 0x99, CHR 0xEF,
      CHR 0xBC, CHR 0x8C, CHR 0xE4, CHR 0xBD, CHR 0x86, CHR 0xE8, CHR 0xBF, CHR 0x98,
      CHR 0xE6, CHR 0x98, CHR 0xAF, CHR 0xE6, CHR 0x8A, CHR 0xBD, CHR 0xE5, CHR 0x87,
      CHR 0xBA, CHR 0xE6, CHR 0x97, CHR 0xB6, CHR 0xE9, CHR 0x97, CHR 0xB4, CHR 0xE5,
      CHR 0x8E, CHR 0xBB, CHR 0xE5, CHR 0x85, CHR 0xAC, CHR 0xE5, CHR 0x9B, CHR 0xAD,
      CHR 0xE6, CHR 0x95, CHR 0xA3, CHR 0xE6, CHR 0xAD, CHR 0xA5, CHR 0xE4, CHR 0xBA,
      CHR 0x86, CHR 0xE3, CHR 0x80, CHR 0x82, CHR 0xE6, CHR 0x84, CHR 0x9F, CHR 0xE8,
      CHR 0xA7, CHR 0x89, CHR 0xE5, CHR 0x88, CHR 0xB0, CHR 0xE4, CHR 0xB9, CHR 0x85,
      CHR 0xE8, CHR 0xBF, CHR 0x9D, CHR 0xE7, CHR 0x9A, CHR 0x84, CHR 0xE6, CHR 0x94,
      CHR 0xBE, CHR 0xE6, CHR 0x9D, CHR 0xBE, CHR 0xE3, CHR 0x80, CHR 0x82]"

definition demo_emoji :: string where
  "demo_emoji =
     [CHR 0xF0, CHR 0x9F, CHR 0x8C, CHR 0xA4, CHR 0xEF, CHR 0xB8, CHR 0x8F]"

definition demo_description :: string where
  "demo_description =
     [CHR 0xE6, CHR 0xBC, CHR 0x94, CHR 0xE7, CHR 0xA4, CHR 0xBA, CHR 0xE6, CHR 0xA8,
      CHR 0xA1, CHR 0xE5, CHR 0xBC, CHR 0x8F]
     @ ''(''
     @ [CHR 0xE9, CHR 0x9C, CHR 0x80, CHR 0xE9, CHR 0x85, CHR 0x8D, CHR 0xE7, CHR 0xBD,
      CHR 0xAE]
     @ ''Key)''"

definition memo_emoji :: string where
  "memo_emoji =
     [CHR 0xF0, CHR 0x9F, CHR 0x93, CHR 0x9D]"

definition recording_description :: string where
  "recording_description =
     [CHR 0xE8, CHR 0xAE, CHR 0xB0, CHR 0xE5, CHR 0xBD, CHR 0x95, CHR 0xE4, CHR 0xB8,
      CHR 0xAD]"

definition analysis_unfinished :: string where
  "analysis_unfinished =
     ''[''
     @ [CHR 0xE5, CHR 0x88, CHR 0x86, CHR 0xE6, CHR 0x9E, CHR 0x90, CHR 0xE6, CHR 0x9C,
      CHR 0xAA, CHR 0xE5, CHR 0xAE, CHR 0x8C, CHR 0xE6, CHR 0x88, CHR 0x90]
     @ '']''"

definition gear_emoji :: string where
  "gear_emoji =
     [CHR 0xE2, CHR 0x9A, CHR 0x99, CHR 0xEF, CHR 0xB8, CHR 0x8F]"

definition configure_key_description :: string where
  "configure_key_description =
     [CHR 0xE8, CHR 0xAF, CHR 0xB7, CHR 0xE9, CHR 0x85, CHR 0x8D, CHR 0xE7, CHR 0xBD,
      CHR 0xAE]
     @ ''Key''"

definition schema_instruction :: string where
  "schema_instruction =
     ''Return a JSON object with the following fields:''
     @ [CHR 0x0A]
     @ ''        - moodEmoji: a single emoji representing the mood.''
     @ [CHR 0x0A]
     @ ''        - moodDescription: a very short, poetic 3-5 word summary in Ch''
     @ ''inese (e.g. ''
     @ [CHR 0x22, CHR 0xE9, CHR 0x9D, CHR 0x99, CHR 0xE8, CHR 0xB0, CHR 0xA7, CHR 0xE7,
      CHR 0x9A, CHR 0x84, CHR 0xE5, CHR 0x8D, CHR 0x88, CHR 0xE5, CHR 0x90, CHR 0x8E,
      CHR 0xE6, CHR 0x97, CHR 0xB6, CHR 0xE5, CHR 0x85, CHR 0x89, CHR 0x22]
     @ '').''
     @ [CHR 0x0A]
     @ ''        - moodKey: one of [''
     @ [CHR 0x22]
     @ ''happy''
     @ [CHR 0x22]
     @ '', ''
     @ [CHR 0x22]
     @ ''calm''
     @ [CHR 0x22]
     @ '', ''
     @ [CHR 0x22]
     @ ''neutral''
     @ [CHR 0x22]
     @ '', ''
     @ [CHR 0x22]
     @ ''sad''
     @ [CHR 0x22]
     @ '', ''
     @ [CHR 0x22]
     @ ''anxious''
     @ [CHR 0x22]
     @ '', ''
     @ [CHR 0x22]
     @ ''angry''
     @ [CHR 0x22]
     @ '', ''
     @ [CHR 0x22]
     @ ''tired''
     @ [CHR 0x22]
     @ ''].''
     @ [CHR 0x0A]
     @ ''        - moodScore: integer 1-10.''
     @ [CHR 0x0A]
     @ ''        - tasks: an array of strings strings (extract actionable items''
     @ '' or key takeaways).''
     @ [CHR 0x0A]
     @ ''        - transcription: the full cleaned up text of the journal entry''
     @ '' in Chinese (merge user text and speech).''"

subsection \<open>The service\<close>

definition DEFAULT_KEY :: string where
  "DEFAULT_KEY = []"

text \<open>
  \<^verbatim>\<open>
  const local = localStorage.getItem("openai_api_key");
  if (local && local.startsWith("sk-")) return local;
  return process.env.API_KEY || DEFAULT_KEY;
  \<close>
\<close>

definition getApiKey :: "environment \<Rightarrow> string" where
  "getApiKey env =
     (let fallback = (case process_env_API_KEY env of
                        None \<Rightarrow> DEFAULT_KEY
                      | Some k \<Rightarrow> if k \<noteq> [] then k else DEFAULT_KEY)
      in case openai_api_key (storage env) of
           None \<Rightarrow> fallback
         | Some local \<Rightarrow> if local \<noteq> [] \<and> prefix ''sk-'' local then local else fallback)"

text \<open>\<open>getMockAnalysis(text)\<close>: the transcription is \<open>text || "..."\<close>.\<close>

definition getMockAnalysis :: "string \<Rightarrow> AnalysisResult" where
  "getMockAnalysis txt =
     \<lparr>ar_transcription = Some (JStr (if txt \<noteq> [] then txt else demo_transcription)),
      ar_moodEmoji = JStr demo_emoji,
      ar_moodDescription = JStr demo_description,
      ar_moodKey = JStr ''happy'',
      ar_moodScore = JNum 8,
      ar_tasks = JArr [JStr ''Go to Settings'', JStr ''Enter OpenAI API Key'']\<rparr>"

text \<open>
  \<^verbatim>\<open>
  const msg = error instanceof Error ? error.message : JSON.stringify(error);
  return msg.includes("quota") || msg.includes("429") || msg.includes("billing")
      || msg.includes("insufficient_quota");
  \<close>
  Everything raised in this service is an \<open>Error\<close>.
\<close>

fun isQuotaError :: "js_error \<Rightarrow> bool" where
  "isQuotaError (Error msg) =
     (js_includes msg ''quota'' \<or> js_includes msg ''429'' \<or> js_includes msg ''billing''
      \<or> js_includes msg ''insufficient_quota'')"

text \<open>\<open>err.error?.message || dflt\<close>, as the message of the \<open>Error\<close> it is given to.\<close>

definition error_message :: "(int \<Rightarrow> string) \<Rightarrow> json \<Rightarrow> string \<Rightarrow> js_error + string" where
  "error_message num err dflt =
     then_try (get_prop (Some err) ''error'') (\<lambda>e.
       case e of
         None \<Rightarrow> Inr dflt
       | Some JNull \<Rightarrow> Inr dflt
       | Some v \<Rightarrow>
           then_try (get_prop (Some v) ''message'') (\<lambda>m.
             Inr (case m of
                    None \<Rightarrow> dflt
                  | Some x \<Rightarrow> if truthy x then js_to_string num x else dflt)))"

text \<open>\<open>data.choices[0].message.content\<close>\<close>

definition choice_content :: "json \<Rightarrow> js_error + json option" where
  "choice_content data =
     then_try (get_prop (Some data) ''choices'') (\<lambda>choices.
     then_try (get_index0 choices) (\<lambda>choice.
     then_try (get_prop choice ''message'') (\<lambda>message.
     get_prop message ''content'')))"

text \<open>
  \<open>callGPT\<close>: the value returned or the error raised, and the requests sent.
  \<^verbatim>\<open>
  const apiKey = getApiKey();
  if (!apiKey) throw new Error("API Key missing. Please set it in Settings.");
  ...
  const response = await fetch(`${OPENAI_BASE_URL}/chat/completions`, ...);
  if (!response.ok) {
      const err = await response.json();
      throw new Error(err.error?.message || "OpenAI API Error");
  }
  const data = await response.json();
  return data.choices[0].message.content;
  \<close>
\<close>

definition callGPT ::
  "environment \<Rightarrow> (string \<times> content) list \<Rightarrow> string \<Rightarrow> bool \<Rightarrow> (js_error + json option) \<times> request list" where
  "callGPT env messages model jsonMode =
     (let apiKey = getApiKey env
      in if apiKey = [] then (Inl (Error ''API Key missing. Please set it in Settings.''), [])
         else
           (let req = chat_completions apiKey model messages jsonMode
            in ((case fetch env req of
                   Rejected msg \<Rightarrow> Inl (Error msg)
                 | NotOk body \<Rightarrow>
                     (case body of
                        Inl msg \<Rightarrow> Inl (Error msg)
                      | Inr err \<Rightarrow>
                          then_try (error_message (Number_toString env) err ''OpenAI API Error'')
                            (\<lambda>m. Inl (Error m)))
                 | Ok body \<Rightarrow>
                     (case body of
                        Inl msg \<Rightarrow> Inl (Error msg)
                      | Inr data \<Rightarrow> choice_content data)),
                [req])))"

text \<open>
  \<open>callWhisper\<close>, in the same way: the credential is checked first, then the data URL is
  decoded, then the request is sent; a reply that is not \<open>ok\<close> raises
  \<open>err.error?.message || "Whisper Transcription Error"\<close>, and of a reply that is \<open>ok\<close>
  \<^verbatim>\<open>const data = await response.json(); return data.text;\<close>
  is returned as it is, whatever it is. The declared result is a string.
\<close>

definition callWhisper :: "environment \<Rightarrow> string \<Rightarrow> (js_error + json option) \<times> request list" where
  "callWhisper env audio =
     (let apiKey = getApiKey env
      in if apiKey = [] then (Inl (Error ''API Key missing. Please set it in Settings.''), [])
         else
           (case dataURLtoFile env audio of
              Inl msg \<Rightarrow> (Inl (Error msg), [])
            | Inr file \<Rightarrow>
                (let req = audio_transcriptions apiKey file
                 in ((case fetch env req of
                        Rejected msg \<Rightarrow> Inl (Error msg)
                      | NotOk body \<Rightarrow>
                          (case body of
                             Inl msg \<Rightarrow> Inl (Error msg)
                           | Inr err \<Rightarrow>
                               then_try
                                 (error_message (Number_toString env) err ''Whisper Transcription Error'')
                                 (\<lambda>m. Inl (Error m)))
                      | Ok body \<Rightarrow>
                          (case body of
                             Inl msg \<Rightarrow> Inl (Error msg)
                           | Inr data \<Rightarrow> get_prop (Some data) ''text'')),
                     [req]))))"

text \<open>
  Step 1 of \<open>analyzeJournalEntry\<close>: the value of \<open>finalTranscription\<close> before the
  analysis call, and the requests sent for it.
  \<^verbatim>\<open>
  let finalTranscription = textInput;
  if (audioBase64) {
      try {
          const audioText = await callWhisper(audioBase64);
          if (finalTranscription) finalTranscription = `${finalTranscription}\n\n[...]: ${audioText}`;
          else finalTranscription = audioText;
      } catch (err) {
          if (isQuotaError(err)) finalTranscription += "\n(...)";
          else finalTranscription += "\n(...)";
      }
  }
  \<close>
  With a text input the value is a string; with none it is whatever \<open>callWhisper\<close>
  returned.
\<close>

definition finalTranscription ::
  "environment \<Rightarrow> string option \<Rightarrow> string \<Rightarrow> json option \<times> request list" where
  "finalTranscription env audioBase64' textInput =
     (case audioBase64' of
        None \<Rightarrow> (Some (JStr textInput), [])
      | Some audio \<Rightarrow>
          if audio = [] then (Some (JStr textInput), [])
          else
            (case callWhisper env audio of
               (Inr audioText, reqs) \<Rightarrow>
                 (if textInput \<noteq> []
                  then Some (JStr (textInput @ voice_record_label
                                   @ string_of_value (Number_toString env) audioText))
                  else audioText,
                  reqs)
             | (Inl err, reqs) \<Rightarrow>
                 (Some (JStr (if isQuotaError err then textInput @ whisper_quota_note
                              else textInput @ whisper_failed_note)),
                  reqs)))"

text \<open>
  Step 2: the text (\<open>finalTranscription\<close> in a template literal), every image, the
  instruction block; and the two messages.
\<close>

definition contentPayload :: "(int \<Rightarrow> string) \<Rightarrow> json option \<Rightarrow> string list \<Rightarrow> content_part list" where
  "contentPayload num ft imageUserBase64 =
     [text_part (''Analyze this journal entry. The user text/transcription is: ''
                 @ [CHR 0x22] @ string_of_value num ft @ [CHR 0x22] @ ''.'')]
     @ map image_url_part imageUserBase64
     @ [text_part schema_instruction]"

definition messages :: "(int \<Rightarrow> string) \<Rightarrow> json option \<Rightarrow> string list \<Rightarrow> (string \<times> content) list" where
  "messages num ft imageUserBase64 =
     [(''system'', Plain ''You are a helpful AI assistant that outputs raw JSON.''),
      (''user'', Parts (contentPayload num ft imageUserBase64))]"

text \<open>
  Step 3, the object returned from the parsed reply:
  \<^verbatim>\<open>
  return {
      transcription: parsed.transcription || finalTranscription,
      moodEmoji: parsed.moodEmoji || "...",
      moodDescription: parsed.moodDescription || "...",
      moodKey: parsed.moodKey || "neutral",
      moodScore: parsed.moodScore || 5,
      tasks: parsed.tasks || []
  };
  \<close>
\<close>

definition result_of_parsed :: "json \<Rightarrow> json option \<Rightarrow> js_error + AnalysisResult" where
  "result_of_parsed parsed ft =
     then_try (get_prop (Some parsed) ''transcription'') (\<lambda>tr.
     then_try (get_prop (Some parsed) ''moodEmoji'') (\<lambda>em.
     then_try (get_prop (Some parsed) ''moodDescription'') (\<lambda>de.
     then_try (get_prop (Some parsed) ''moodKey'') (\<lambda>ke.
     then_try (get_prop (Some parsed) ''moodScore'') (\<lambda>sc.
     then_try (get_prop (Some parsed) ''tasks'') (\<lambda>ta.
       Inr \<lparr>ar_transcription = or_maybe tr ft,
            ar_moodEmoji = or_else em (JStr memo_emoji),
            ar_moodDescription = or_else de (JStr recording_description),
            ar_moodKey = or_else ke (JStr ''neutral''),
            ar_moodScore = or_else sc (JNum 5),
            ar_tasks = or_else ta (JArr [])\<rparr>))))))"

text \<open>
  The \<open>try\<close> block: steps 1 and 2, the call
  \<^verbatim>\<open>const jsonStr = await callGPT(messages, "gpt-4o", true);\<close>
  \<^verbatim>\<open>const parsed = JSON.parse(jsonStr);\<close>
  and the object. The result is what the block returns or raises, and the requests sent.
\<close>

definition analyze_try ::
  "environment \<Rightarrow> string option \<Rightarrow> string \<Rightarrow> string list \<Rightarrow> (js_error + AnalysisResult) \<times> request list" where
  "analyze_try env audioBase64' textInput imageUserBase64 =
     (case finalTranscription env audioBase64' textInput of
        (ft, reqs1) \<Rightarrow>
          (case callGPT env (messages (Number_toString env) ft imageUserBase64) ''gpt-4o'' True of
             (reply, reqs2) \<Rightarrow>
               (then_try reply (\<lambda>jsonStr.
                  case JSON_parse env (string_of_value (Number_toString env) jsonStr) of
                    Inl msg \<Rightarrow> Inl (Error msg)
                  | Inr parsed \<Rightarrow> result_of_parsed parsed ft),
                reqs1 @ reqs2)))"

text \<open>The object the \<open>catch\<close> block returns when the error is not a quota error.\<close>

definition generic_fallback :: "string \<Rightarrow> AnalysisResult" where
  "generic_fallback textInput =
     \<lparr>ar_transcription = Some (JStr (if textInput \<noteq> [] then textInput else analysis_unfinished)),
      ar_moodEmoji = JStr gear_emoji,
      ar_moodDescription = JStr configure_key_description,
      ar_moodKey = JStr ''neutral'',
      ar_moodScore = JNum 5,
      ar_tasks = JArr []\<rparr>"

text \<open>
  \<open>analyzeJournalEntry\<close>: the \<open>try\<close> block, and the \<open>catch\<close> block
  \<^verbatim>\<open>
  if (isQuotaError(error)) return getMockAnalysis(textInput);
  return { transcription: textInput || `[...]`, moodEmoji: "...", ... };
  \<close>
  The result is what the function returns to its caller or raises, and the requests it
  sent to the provider. The fourth parameter, \<open>audioMimeType\<close>, is never read.
\<close>

definition analyzeJournalEntry ::
  "environment \<Rightarrow> string option \<Rightarrow> string \<Rightarrow> string list \<Rightarrow> (js_error + AnalysisResult) \<times> request list" where
  "analyzeJournalEntry env audioBase64' textInput imageUserBase64 =
     (case analyze_try env audioBase64' textInput imageUserBase64 of
        (Inr result, reqs) \<Rightarrow> (Inr result, reqs)
      | (Inl error, reqs) \<Rightarrow>
          (Inr (if isQuotaError error then getMockAnalysis textInput
                else generic_fallback textInput),
           reqs))"

section \<open>Devices of the proofs\<close>


text \<open>A clock that reads \<open>t\<close> at every call.\<close>

definition steady_clock :: "nat \<Rightarrow> nat \<Rightarrow> nat" where
  "steady_clock t i = t"

text \<open>Entries, storages and browsers for the examples.\<close>

definition example_entry :: "string \<Rightarrow> string \<Rightarrow> string list \<Rightarrow> JournalEntry" where
  "example_entry d txt imgs =
     \<lparr>entry_id = ''1'', date = d, audioBase64 = None, images = imgs, transcription = txt,
      moodEmoji = [], moodDescription = [], moodKey = ''neutral'', moodScore = 5,
      tasks = Some [], createdAt = 0\<rparr>"

definition empty_storage :: localStorage where
  "empty_storage = \<lparr>soullog_entries_v1 = None, openai_api_key = None\<rparr>"

text \<open>A browser that accepts every write, and one with room left for text but for no image.\<close>

definition roomy :: "JournalEntry list \<Rightarrow> bool" where
  "roomy es = True"

definition no_room_for_images :: "JournalEntry list \<Rightarrow> bool" where
  "no_room_for_images es = list_all (\<lambda>e. images e = []) es"

text \<open>Providers and browsers for the examples.\<close>

definition configured_storage :: localStorage where
  "configured_storage = \<lparr>soullog_entries_v1 = None, openai_api_key = Some ''sk-example''\<rparr>"

text \<open>The body of a reply that is not \<open>ok\<close>, with a message that names the quota.\<close>

definition quota_error_body :: json where
  "quota_error_body =
     JObj [(''error'',
            JObj [(''message'', JStr ''You exceeded your current quota (insufficient_quota).''),
                  (''type'', JStr ''insufficient_quota'')])]"

text \<open>A completion whose content is the JSON text of an object with a mood key only.\<close>

definition calm_reply_text :: string where
  "calm_reply_text = ''{'' @ [CHR 0x22] @ ''moodKey'' @ [CHR 0x22] @ '':'' @ [CHR 0x22] @ ''calm'' @ [CHR 0x22] @ ''}''"

definition calm_completion :: json where
  "calm_completion =
     JObj [(''choices'',
            JArr [JObj [(''message'',
                         JObj [(''role'', JStr ''assistant''), (''content'', JStr calm_reply_text)])]])]"

definition example_JSON_parse :: "string \<Rightarrow> string + json" where
  "example_JSON_parse s =
     (if s = calm_reply_text then Inr (JObj [(''moodKey'', JStr ''calm'')])
      else Inl ''Unexpected token'')"

text \<open>
  Providers: one that refuses every request for lack of quota; one that refuses the
  transcription only and answers the analysis; one that answers the analysis, and the
  transcription with an \<open>ok\<close> reply whose body has no \<open>text\<close>.
\<close>

definition refuse_all :: "request \<Rightarrow> reply" where
  "refuse_all req = NotOk (Inr quota_error_body)"

fun refuse_transcription :: "request \<Rightarrow> reply" where
  "refuse_transcription (audio_transcriptions k f) = NotOk (Inr quota_error_body)"
| "refuse_transcription (chat_completions k m ms j) = Ok (Inr calm_completion)"

fun transcription_without_text :: "request \<Rightarrow> reply" where
  "transcription_without_text (audio_transcriptions k f) = Ok (Inr (JObj []))"
| "transcription_without_text (chat_completions k m ms j) = Ok (Inr calm_completion)"

definition decode_any :: "string \<Rightarrow> string + string" where
  "decode_any url = Inr url"

text \<open>A configured browser with the provider out of quota.\<close>

definition out_of_quota :: environment where
  "out_of_quota =
     \<lparr>storage = configured_storage, process_env_API_KEY = Some [], fetch = refuse_all,
      JSON_parse = example_JSON_parse, Number_toString = string_of_int,
      dataURLtoFile = decode_any\<rparr>"

text \<open>One whose provider refuses the transcription only.\<close>

definition transcription_out_of_quota :: environment where
  "transcription_out_of_quota =
     \<lparr>storage = configured_storage, process_env_API_KEY = Some [], fetch = refuse_transcription,
      JSON_parse = example_JSON_parse, Number_toString = string_of_int,
      dataURLtoFile = decode_any\<rparr>"

text \<open>One whose provider answers the transcription without a text.\<close>

definition transcription_textless :: environment where
  "transcription_textless =
     \<lparr>storage = configured_storage, process_env_API_KEY = Some [],
      fetch = transcription_without_text,
      JSON_parse = example_JSON_parse, Number_toString = string_of_int,
      dataURLtoFile = decode_any\<rparr>"

text \<open>The second provider, and a browser where no credential was ever entered.\<close>

definition unconfigured :: environment where
  "unconfigured =
     \<lparr>storage = empty_storage, process_env_API_KEY = Some [], fetch = refuse_transcription,
      JSON_parse = example_JSON_parse, Number_toString = string_of_int,
      dataURLtoFile = decode_any\<rparr>"

section \<open>Decimal numerals\<close>

declare string_of_nat.simps [simp del]






lemma string_of_nat_digit: "n < 10 \<Longrightarrow> string_of_nat n = [digit_char n]"
  by (subst string_of_nat.simps) simp

lemma digit_chars:
  "digit_char 0 = CHR ''0''" "digit_char 1 = CHR ''1''" "digit_char 2 = CHR ''2''"
  "digit_char 3 = CHR ''3''" "digit_char 4 = CHR ''4''" "digit_char 5 = CHR ''5''"
  "digit_char 6 = CHR ''6''" "digit_char 7 = CHR ''7''" "digit_char 8 = CHR ''8''"
  "digit_char 9 = CHR ''9''" "digit_char (Suc 0) = CHR ''1''"
  by (simp_all add: digit_char_def char_of_eq_iff)






section \<open>Arrays\<close>

text \<open>\<open>xs.map((t, i) => f(i, t))\<close>, element by element.\<close>

lemma map_enumerate_nth:
  "map (\<lambda>(i, t). f i t) (enumerate 0 xs) = map (\<lambda>i. f i (xs ! i)) [0..<length xs]"
  by (rule nth_equalityI) (simp_all add: nth_enumerate_eq)

lemma is_string_hd_map_JStr: "ts \<noteq> [] \<Longrightarrow> is_string (hd (map JStr ts))"
  by (cases ts) simp_all

section \<open>Task normalization: the legacy migration\<close>

lemma getTasksForEntry_legacy:
  "getTasksForEntry (e\<lparr>tasks := Some (map JStr ts)\<rparr>) =
     map (\<lambda>i. TaskItem (''legacy-'' @ date e @ ''-'' @ string_of_nat i) (JStr (ts ! i)) False)
       [0..<length ts]"
proof (cases ts)
  case Nil
  then show ?thesis by (simp add: getTasksForEntry_def)
next
  case (Cons t ts')
  then have "getTasksForEntry (e\<lparr>tasks := Some (map JStr ts)\<rparr>) =
      map (\<lambda>(i, t). TaskItem (''legacy-'' @ date e @ ''-'' @ string_of_nat i) t False)
        (enumerate 0 (map JStr ts))"
    by (simp add: getTasksForEntry_def)
  also have "\<dots> = map (\<lambda>i. TaskItem (''legacy-'' @ date e @ ''-'' @ string_of_nat i) (map JStr ts ! i) False)
        [0..<length (map JStr ts)]"
    by (rule map_enumerate_nth)
  finally show ?thesis by simp
qed

lemma normalizeTasks_legacy:
  "normalizeTasks now (Some (map JStr ts)) =
     map (\<lambda>i. TaskItem (''legacy-'' @ string_of_nat (now i) @ ''-'' @ string_of_nat i) (JStr (ts ! i)) False)
       [0..<length ts]"
proof (cases ts)
  case Nil
  then show ?thesis by (simp add: normalizeTasks_def)
next
  case (Cons t ts')
  then have "normalizeTasks now (Some (map JStr ts)) =
      map (\<lambda>(i, t). TaskItem (''legacy-'' @ string_of_nat (now i) @ ''-'' @ string_of_nat i) t False)
        (enumerate 0 (map JStr ts))"
    by (simp add: normalizeTasks_def)
  also have "\<dots> = map (\<lambda>i. TaskItem (''legacy-'' @ string_of_nat (now i) @ ''-'' @ string_of_nat i) (map JStr ts ! i) False)
        [0..<length (map JStr ts)]"
    by (rule map_enumerate_nth)
  finally show ?thesis by simp
qed

text \<open>
  The calendar view on the example list: the ids are made of the entry's date and the
  index, whatever the time of the call.
\<close>

lemma getTasksForEntry_example:
  "getTasksForEntry
     \<lparr>entry_id = ''1'', date = ''2024-01-05'', audioBase64 = None, images = [],
      transcription = [], moodEmoji = [], moodDescription = [], moodKey = ''neutral'',
      moodScore = 5, tasks = Some [JStr ''buy milk'', JStr ''call mom''], createdAt = 0\<rparr> =
   [TaskItem ''legacy-2024-01-05-0'' (JStr ''buy milk'') False,
    TaskItem ''legacy-2024-01-05-1'' (JStr ''call mom'') False]"
  using getTasksForEntry_legacy [where e =
     "\<lparr>entry_id = ''1'', date = ''2024-01-05'', audioBase64 = None, images = [],
      transcription = [], moodEmoji = [], moodDescription = [], moodKey = ''neutral'',
      moodScore = 5, tasks = None, createdAt = 0\<rparr>" and ts = "[''buy milk'', ''call mom'']"]
  by (simp add: upt_rec string_of_nat_digit digit_chars)

lemma string_of_nat_1704412800000: "string_of_nat 1704412800000 = ''1704412800000''"
  by (simp add: string_of_nat.simps [of "numeral k" for k] string_of_nat_digit digit_chars)

lemma string_of_nat_1704412800001: "string_of_nat 1704412800001 = ''1704412800001''"
  by (simp add: string_of_nat.simps [of "numeral k" for k] string_of_nat_digit digit_chars)

text \<open>
  C1. The task list \<open>["buy milk", "call mom"]\<close> of the entry of 2024-01-05. The calendar
  view's normalization (\<open>getTasksForEntry\<close>) gives the two items with the ids
  \<open>legacy-2024-01-05-0\<close> and \<open>legacy-2024-01-05-1\<close>. The record view's normalization
  (\<open>normalizeTasks\<close>) of the same list, on a clock that reads 1704412800000 (the first
  millisecond of that day), does not: its ids are \<open>legacy-1704412800000-0\<close> and
  \<open>legacy-1704412800000-1\<close>, and a millisecond later they are others again.
\<close>

theorem normalizeTasks_ids_from_clock:
  "getTasksForEntry
     \<lparr>entry_id = ''1'', date = ''2024-01-05'', audioBase64 = None, images = [],
      transcription = [], moodEmoji = [], moodDescription = [], moodKey = ''neutral'',
      moodScore = 5, tasks = Some [JStr ''buy milk'', JStr ''call mom''], createdAt = 0\<rparr> =
     [TaskItem ''legacy-2024-01-05-0'' (JStr ''buy milk'') False,
      TaskItem ''legacy-2024-01-05-1'' (JStr ''call mom'') False]
   \<and> normalizeTasks (steady_clock 1704412800000) (Some [JStr ''buy milk'', JStr ''call mom'']) \<noteq>
     [TaskItem ''legacy-2024-01-05-0'' (JStr ''buy milk'') False,
      TaskItem ''legacy-2024-01-05-1'' (JStr ''call mom'') False]
   \<and> normalizeTasks (steady_clock 1704412800000) (Some [JStr ''buy milk'', JStr ''call mom'']) =
     [TaskItem ''legacy-1704412800000-0'' (JStr ''buy milk'') False,
      TaskItem ''legacy-1704412800000-1'' (JStr ''call mom'') False]
   \<and> normalizeTasks (steady_clock 1704412800000) (Some [JStr ''buy milk'', JStr ''call mom'']) \<noteq>
     normalizeTasks (steady_clock 1704412800001) (Some [JStr ''buy milk'', JStr ''call mom''])"
  using getTasksForEntry_example
  by (simp add: normalizeTasks_def steady_clock_def TaskItem_def string_of_nat_1704412800000
      string_of_nat_1704412800001 string_of_nat_digit digit_chars)

section \<open>Task normalization: structured lists\<close>

lemma normalizeTasks_structured:
  "\<not> is_string t0 \<Longrightarrow> normalizeTasks now (Some (t0 # ts)) = t0 # ts"
  by (simp add: normalizeTasks_def)

lemma getTasksForEntry_structured:
  "\<not> is_string t0 \<Longrightarrow> getTasksForEntry (e\<lparr>tasks := Some (t0 # ts)\<rparr>) = t0 # ts"
  by (simp add: getTasksForEntry_def)

lemma not_is_string_TaskItem: "\<not> is_string (TaskItem i t c)"
  by (simp add: TaskItem_def)

lemma normalizeTasks_head:
  "normalizeTasks now x = [] \<or> \<not> is_string (hd (normalizeTasks now x))"
  by (auto simp: normalizeTasks_def enumerate_eq_zip upt_rec not_is_string_TaskItem
      split: option.splits list.splits)

lemma normalizeTasks_twice:
  "normalizeTasks now' (Some (normalizeTasks now x)) = normalizeTasks now x"
proof (cases "normalizeTasks now x")
  case Nil
  then show ?thesis by (simp add: normalizeTasks_def)
next
  case (Cons y ys)
  with normalizeTasks_head [of now x] have "\<not> is_string y" by simp
  with Cons show ?thesis by (simp add: normalizeTasks_structured)
qed

lemma getTasksForEntry_head:
  "getTasksForEntry e = [] \<or> \<not> is_string (hd (getTasksForEntry e))"
  by (cases "tasks e"; cases "the (tasks e)")
    (auto simp: getTasksForEntry_def enumerate_eq_zip upt_rec not_is_string_TaskItem)

lemma getTasksForEntry_twice:
  "getTasksForEntry (e\<lparr>tasks := Some (getTasksForEntry e)\<rparr>) = getTasksForEntry e"
proof (cases "getTasksForEntry e")
  case Nil
  then show ?thesis by (simp add: getTasksForEntry_def)
next
  case (Cons y ys)
  with getTasksForEntry_head [of e] have "\<not> is_string y" by simp
  with Cons show ?thesis by (simp add: getTasksForEntry_structured)
qed

text \<open>
  C6. Task normalization is idempotent. A task list whose first element is not a plain
  string (a list of structured items) comes back as it is from both normalizers, same
  items in the same order, and so does the empty list; and for every task field \<open>x\<close>,
  absent, legacy, structured or mixed, normalizing the normalized list gives the
  normalized list, whatever the clock reads in either call.
\<close>

theorem normalization_idempotent:
  "(\<not> is_string t0 \<longrightarrow>
      normalizeTasks now (Some (t0 # ts)) = t0 # ts
      \<and> getTasksForEntry (e\<lparr>tasks := Some (t0 # ts)\<rparr>) = t0 # ts)
   \<and> normalizeTasks now (Some []) = []
   \<and> getTasksForEntry (e\<lparr>tasks := Some []\<rparr>) = []
   \<and> normalizeTasks now' (Some (normalizeTasks now x)) = normalizeTasks now x
   \<and> getTasksForEntry (e\<lparr>tasks := Some (getTasksForEntry e)\<rparr>) = getTasksForEntry e"
proof -
  have "normalizeTasks now (Some []) = []" by (simp add: normalizeTasks_def)
  moreover have "getTasksForEntry (e\<lparr>tasks := Some []\<rparr>) = []" by (simp add: getTasksForEntry_def)
  ultimately show ?thesis
    using normalizeTasks_structured [where ?t0.0 = t0 and now = now and ts = ts]
      getTasksForEntry_structured [where ?t0.0 = t0 and e = e and ts = ts]
      normalizeTasks_twice [where now' = now' and now = now and x = x]
      getTasksForEntry_twice [where e = e]
    by blast
qed

theorem normalization_idempotent_example:
  "\<not> is_string (TaskItem ''manual-1700000000000'' (JStr ''water the plants'') True)
   \<and> normalizeTasks (steady_clock 5)
       (Some [TaskItem ''manual-1700000000000'' (JStr ''water the plants'') True,
              TaskItem ''ai-1700000000001-0'' (JStr ''call mom'') False]) =
      [TaskItem ''manual-1700000000000'' (JStr ''water the plants'') True,
       TaskItem ''ai-1700000000001-0'' (JStr ''call mom'') False]
   \<and> getTasksForEntry
       \<lparr>entry_id = ''1'', date = ''2024-01-05'', audioBase64 = None, images = [],
        transcription = [], moodEmoji = [], moodDescription = [], moodKey = ''neutral'',
        moodScore = 5,
        tasks = Some [TaskItem ''manual-1700000000000'' (JStr ''water the plants'') True,
                      TaskItem ''ai-1700000000001-0'' (JStr ''call mom'') False],
        createdAt = 0\<rparr> =
      [TaskItem ''manual-1700000000000'' (JStr ''water the plants'') True,
       TaskItem ''ai-1700000000001-0'' (JStr ''call mom'') False]"
  using normalization_idempotent [where
      ?t0.0 = "TaskItem ''manual-1700000000000'' (JStr ''water the plants'') True"
      and ts = "[TaskItem ''ai-1700000000001-0'' (JStr ''call mom'') False]"
      and now = "steady_clock 5"
      and e = "\<lparr>entry_id = ''1'', date = ''2024-01-05'', audioBase64 = None, images = [],
        transcription = [], moodEmoji = [], moodDescription = [], moodKey = ''neutral'',
        moodScore = 5, tasks = None, createdAt = 0\<rparr>"]
  by (simp add: not_is_string_TaskItem)

section \<open>The merge after an analysis\<close>









section \<open>The entry store\<close>

lemma getEntries_saveEntry:
  "getEntries (fst (saveEntry quota ls e)) =
     (if quota (filter (\<lambda>x. date x \<noteq> date e) (getEntries ls) @ [e])
      then filter (\<lambda>x. date x \<noteq> date e) (getEntries ls) @ [e]
      else getEntries ls)"
  by (simp add: saveEntry_def Let_def getEntries_def)

lemma alert_saveEntry:
  "snd (saveEntry quota ls e) = None \<longleftrightarrow>
     quota (filter (\<lambda>x. date x \<noteq> date e) (getEntries ls) @ [e])"
  by (simp add: saveEntry_def Let_def)

lemma getEntries_deleteEntry:
  "getEntries (fst (deleteEntry quota ls d)) =
     (if quota (filter (\<lambda>x. date x \<noteq> d) (getEntries ls))
      then filter (\<lambda>x. date x \<noteq> d) (getEntries ls)
      else getEntries ls)"
  by (simp add: deleteEntry_def Let_def getEntries_def)

lemma error_deleteEntry:
  "snd (deleteEntry quota ls d) = None \<longleftrightarrow> quota (filter (\<lambda>x. date x \<noteq> d) (getEntries ls))"
  by (simp add: deleteEntry_def Let_def)

lemma filter_other_date:
  "d' \<noteq> d \<Longrightarrow>
     filter (\<lambda>x. date x = d') (filter (\<lambda>x. date x \<noteq> d) es) = filter (\<lambda>x. date x = d') es"
  by (induction es) auto

lemma filter_same_date: "filter (\<lambda>x. date x = d) (filter (\<lambda>x. date x \<noteq> d) es) = []"
  by (induction es) auto

lemma find_filter_date: "find (\<lambda>x. date x = d) es = (case filter (\<lambda>x. date x = d) es of [] \<Rightarrow> None | x # _ \<Rightarrow> Some x)"
  by (induction es) auto

text \<open>
  C7. For every storage and every two entries \<open>e1\<close>, \<open>e2\<close> with the same date, saving
  \<open>e1\<close> and then \<open>e2\<close> leaves, whenever the browser accepts the second write (no alert
  is shown for it), exactly one entry for that date in the store, namely \<open>e2\<close>: it is
  the only entry of that date that \<open>getEntries\<close> returns and the one \<open>getEntryByDate\<close>
  finds. The browser may have accepted or refused the first write.
\<close>

theorem save_twice_keeps_last:
  assumes "date e1 = date e2"
    and "snd (saveEntry quota' (fst (saveEntry quota ls e1)) e2) = None"
  shows "filter (\<lambda>x. date x = date e2)
           (getEntries (fst (saveEntry quota' (fst (saveEntry quota ls e1)) e2))) = [e2]
       \<and> getEntryByDate (fst (saveEntry quota' (fst (saveEntry quota ls e1)) e2)) (date e2) = Some e2"
proof -
  let ?ls1 = "fst (saveEntry quota ls e1)"
  from assms(2) have "getEntries (fst (saveEntry quota' ?ls1 e2)) =
      filter (\<lambda>x. date x \<noteq> date e2) (getEntries ?ls1) @ [e2]"
    by (simp add: getEntries_saveEntry alert_saveEntry)
  then have "filter (\<lambda>x. date x = date e2) (getEntries (fst (saveEntry quota' ?ls1 e2))) = [e2]"
    by (simp add: filter_same_date del: filter_filter)
  then show ?thesis by (simp add: getEntryByDate_def find_filter_date)
qed

theorem save_twice_keeps_last_example:
  "date (example_entry ''2024-01-05'' ''morning'' []) = date (example_entry ''2024-01-05'' ''evening'' [])
   \<and> snd (saveEntry roomy (fst (saveEntry roomy empty_storage (example_entry ''2024-01-05'' ''morning'' [])))
          (example_entry ''2024-01-05'' ''evening'' [])) = None
   \<and> getEntries (fst (saveEntry roomy (fst (saveEntry roomy empty_storage (example_entry ''2024-01-05'' ''morning'' [])))
          (example_entry ''2024-01-05'' ''evening'' []))) = [example_entry ''2024-01-05'' ''evening'' []]
   \<and> getEntryByDate (fst (saveEntry roomy (fst (saveEntry roomy empty_storage (example_entry ''2024-01-05'' ''morning'' [])))
          (example_entry ''2024-01-05'' ''evening'' []))) ''2024-01-05'' = Some (example_entry ''2024-01-05'' ''evening'' [])"
proof -
  have d: "date (example_entry ''2024-01-05'' ''morning'' []) = date (example_entry ''2024-01-05'' ''evening'' [])"
    by (simp add: example_entry_def)
  have a: "snd (saveEntry roomy (fst (saveEntry roomy empty_storage (example_entry ''2024-01-05'' ''morning'' [])))
          (example_entry ''2024-01-05'' ''evening'' [])) = None"
    by (simp add: alert_saveEntry roomy_def)
  have g: "getEntries (fst (saveEntry roomy (fst (saveEntry roomy empty_storage (example_entry ''2024-01-05'' ''morning'' [])))
          (example_entry ''2024-01-05'' ''evening'' []))) = [example_entry ''2024-01-05'' ''evening'' []]"
    by (simp add: getEntries_saveEntry roomy_def) (simp add: getEntries_def empty_storage_def example_entry_def)
  have "date (example_entry ''2024-01-05'' ''evening'' []) = ''2024-01-05''"
    by (simp add: example_entry_def)
  with save_twice_keeps_last [OF d a] d a g show ?thesis by simp
qed

text \<open>
  A browser with no room left for images: the morning's entry (text only) is saved, the
  evening's entry of the same day (with a photo) is refused with the alert, and the
  store keeps the morning's entry.
\<close>

theorem save_twice_refused:
  "getEntries (fst (saveEntry no_room_for_images
       (fst (saveEntry no_room_for_images empty_storage (example_entry ''2024-01-05'' ''morning'' [])))
       (example_entry ''2024-01-05'' ''evening'' [''data:image/png;base64,iVBOR'']))) =
     [example_entry ''2024-01-05'' ''morning'' []]
   \<and> getEntryByDate (fst (saveEntry no_room_for_images
       (fst (saveEntry no_room_for_images empty_storage (example_entry ''2024-01-05'' ''morning'' [])))
       (example_entry ''2024-01-05'' ''evening'' [''data:image/png;base64,iVBOR'']))) ''2024-01-05'' \<noteq>
     Some (example_entry ''2024-01-05'' ''evening'' [''data:image/png;base64,iVBOR''])
   \<and> snd (saveEntry no_room_for_images
       (fst (saveEntry no_room_for_images empty_storage (example_entry ''2024-01-05'' ''morning'' [])))
       (example_entry ''2024-01-05'' ''evening'' [''data:image/png;base64,iVBOR''])) = Some storage_full_alert"
  by (simp add: saveEntry_def Let_def getEntries_def getEntryByDate_def empty_storage_def
      example_entry_def no_room_for_images_def)

text \<open>
  C10. The frame of the store. Saving an entry \<open>e\<close> leaves the entries of every other
  date \<open>d'\<close> as they were, in \<open>getEntries\<close> and in \<open>getEntryByDate\<close>, whether the write
  is accepted or refused; deleting a date \<open>d\<close> leaves the entries of every other date as
  they were, and when the write is accepted no entry for \<open>d\<close> is left. Neither touches
  the stored credential.
\<close>

theorem store_frame:
  "(d' \<noteq> date e \<longrightarrow>
      filter (\<lambda>x. date x = d') (getEntries (fst (saveEntry quota ls e))) =
        filter (\<lambda>x. date x = d') (getEntries ls)
      \<and> getEntryByDate (fst (saveEntry quota ls e)) d' = getEntryByDate ls d')
   \<and> (d' \<noteq> d \<longrightarrow>
      filter (\<lambda>x. date x = d') (getEntries (fst (deleteEntry quota ls d))) =
        filter (\<lambda>x. date x = d') (getEntries ls)
      \<and> getEntryByDate (fst (deleteEntry quota ls d)) d' = getEntryByDate ls d')
   \<and> (snd (deleteEntry quota ls d) = None \<longrightarrow>
      getEntryByDate (fst (deleteEntry quota ls d)) d = None)
   \<and> openai_api_key (fst (saveEntry quota ls e)) = openai_api_key ls
   \<and> openai_api_key (fst (deleteEntry quota ls d)) = openai_api_key ls"
proof -
  have s: "filter (\<lambda>x. date x = d') (getEntries (fst (saveEntry quota ls e))) =
        filter (\<lambda>x. date x = d') (getEntries ls)" if "d' \<noteq> date e"
    using that by (simp add: getEntries_saveEntry filter_other_date del: filter_filter)
  have t: "filter (\<lambda>x. date x = d') (getEntries (fst (deleteEntry quota ls d))) =
        filter (\<lambda>x. date x = d') (getEntries ls)" if "d' \<noteq> d"
    using that by (simp add: getEntries_deleteEntry filter_other_date del: filter_filter)
  have r: "getEntryByDate (fst (deleteEntry quota ls d)) d = None" if "snd (deleteEntry quota ls d) = None"
    using that by (simp add: getEntryByDate_def find_filter_date getEntries_deleteEntry
        error_deleteEntry filter_same_date del: filter_filter)
  have k: "openai_api_key (fst (saveEntry quota ls e)) = openai_api_key ls"
    "openai_api_key (fst (deleteEntry quota ls d)) = openai_api_key ls"
    by (simp_all add: saveEntry_def deleteEntry_def Let_def)
  from s t r k show ?thesis
    by (simp add: getEntryByDate_def find_filter_date)
qed

theorem store_frame_example:
  "''2024-01-04'' \<noteq> date (example_entry ''2024-01-05'' ''evening'' [])
   \<and> getEntryByDate
        (fst (saveEntry roomy
          \<lparr>soullog_entries_v1 = Some [example_entry ''2024-01-04'' ''eve'' [], example_entry ''2024-01-05'' ''morning'' []],
           openai_api_key = None\<rparr>
          (example_entry ''2024-01-05'' ''evening'' []))) ''2024-01-04'' =
      Some (example_entry ''2024-01-04'' ''eve'' [])
   \<and> ''2024-01-04'' \<noteq> ''2024-01-05''
   \<and> getEntryByDate
        (fst (deleteEntry roomy
          \<lparr>soullog_entries_v1 = Some [example_entry ''2024-01-04'' ''eve'' [], example_entry ''2024-01-05'' ''morning'' []],
           openai_api_key = None\<rparr>
          ''2024-01-05'')) ''2024-01-04'' =
      Some (example_entry ''2024-01-04'' ''eve'' [])
   \<and> snd (deleteEntry roomy
          \<lparr>soullog_entries_v1 = Some [example_entry ''2024-01-04'' ''eve'' [], example_entry ''2024-01-05'' ''morning'' []],
           openai_api_key = None\<rparr>
          ''2024-01-05'') = None
   \<and> getEntryByDate
        (fst (deleteEntry roomy
          \<lparr>soullog_entries_v1 = Some [example_entry ''2024-01-04'' ''eve'' [], example_entry ''2024-01-05'' ''morning'' []],
           openai_api_key = None\<rparr>
          ''2024-01-05'')) ''2024-01-05'' = None"
  using store_frame [where d' = "''2024-01-04''" and d = "''2024-01-05''" and quota = roomy
      and e = "example_entry ''2024-01-05'' ''evening'' []"
      and ls = "\<lparr>soullog_entries_v1 = Some [example_entry ''2024-01-04'' ''eve'' [], example_entry ''2024-01-05'' ''morning'' []],
           openai_api_key = None\<rparr>"]
  by (simp add: error_deleteEntry roomy_def) (simp add: getEntryByDate_def getEntries_def example_entry_def)

section \<open>Mood colours and labels\<close>

lemma palette_keys:
  "map fst MOOD_PALETTE = [''happy'', ''calm'', ''neutral'', ''sad'', ''anxious'', ''angry'', ''tired'']"
  by (simp add: MOOD_PALETTE_def)

lemma label_keys: "map fst MOOD_LABELS = map fst MOOD_PALETTE"
  by (simp add: MOOD_LABELS_def MOOD_PALETTE_def)

lemma palette_neutral:
  "map_of MOOD_PALETTE ''neutral'' =
     Some \<lparr>light = ''#F2F0E9'', medium = ''#A3A398'', strong = ''#5C5C54''\<rparr>"
  by (simp add: MOOD_PALETTE_def)

lemma safeKey_defined: "map_of MOOD_PALETTE k = Some d \<Longrightarrow> safeKey k = k"
  by (simp add: safeKey_def get_property_def)

lemma map_of_no_key: "k \<notin> set (map fst xs) \<Longrightarrow> map_of xs k = None"
  by (simp add: map_of_eq_None_iff)

lemma safeKey_unknown:
  "k \<notin> set (map fst MOOD_PALETTE) \<Longrightarrow> k \<notin> set Object_prototype \<Longrightarrow> safeKey k = ''neutral''"
  by (simp add: safeKey_def get_property_def map_of_no_key)

lemma getMoodColor_defined:
  "map_of MOOD_PALETTE k = Some d \<Longrightarrow> getMoodColor k s ty = Inr (Some (shade d ty))"
  by (simp add: getMoodColor_def safeKey_defined get_property_def)

lemma getMoodColorByScore_defined:
  "map_of MOOD_PALETTE k = Some d \<Longrightarrow>
     getMoodColorByScore k s =
       Inr (Some (if s \<ge> 8 then strong d else if s \<ge> 4 then medium d else light d))"
  by (simp add: getMoodColorByScore_def safeKey_defined get_property_def)

lemma moodLabel_unknown:
  "k \<notin> set (map fst MOOD_PALETTE) \<Longrightarrow> k \<notin> set Object_prototype \<Longrightarrow> moodLabel l k = Own k"
proof -
  assume "k \<notin> set (map fst MOOD_PALETTE)" and p: "k \<notin> set Object_prototype"
  then have "k \<notin> set (map fst MOOD_LABELS)"
    unfolding label_keys by blast
  then have "map_of MOOD_LABELS k = None"
    by (rule map_of_no_key)
  with p show ?thesis
    by (cases l) (simp_all add: moodLabel_def get_property_def)
qed

text \<open>
  C8. For every mood key outside the fixed enumeration that is not the name of a property
  every JavaScript object inherits, and every intensity tier, the colour lookup falls back
  to the ``neutral'' key's colours, in the tier resolver and in the score resolver alike;
  the label of such a key is the key itself. In particular the strong colour of
  ``unknown\_key'' is the strong colour of ``neutral''.
\<close>

theorem unknown_key_fallback:
  assumes "k \<notin> set (map fst MOOD_PALETTE)" and "k \<notin> set Object_prototype"
  shows "getMoodColor k s ty = getMoodColor ''neutral'' s ty
       \<and> getMoodColorByScore k s = getMoodColorByScore ''neutral'' s
       \<and> moodLabel l k = Own k"
proof -
  from assms have "safeKey k = ''neutral''" by (rule safeKey_unknown)
  moreover have "safeKey ''neutral'' = ''neutral''"
    using palette_neutral by (rule safeKey_defined)
  ultimately show ?thesis
    using moodLabel_unknown [OF assms] by (simp add: getMoodColor_def getMoodColorByScore_def)
qed

theorem unknown_key_fallback_example:
  "''unknown_key'' \<notin> set (map fst MOOD_PALETTE)
   \<and> ''unknown_key'' \<notin> set Object_prototype
   \<and> getMoodColor ''unknown_key'' 7 Strong = getMoodColor ''neutral'' 7 Strong
   \<and> getMoodColor ''neutral'' 7 Strong = Inr (Some ''#5C5C54'')
   \<and> moodLabel Zh ''unknown_key'' = Own ''unknown_key''"
proof -
  have a: "''unknown_key'' \<notin> set (map fst MOOD_PALETTE)"
    unfolding palette_keys by simp
  have b: "''unknown_key'' \<notin> set Object_prototype"
    by (simp add: Object_prototype_def)
  have "getMoodColor ''neutral'' 7 Strong = Inr (Some ''#5C5C54'')"
    using getMoodColor_defined [OF palette_neutral] by simp
  with unknown_key_fallback [OF a b, of 7 Strong Zh] a b show ?thesis by simp
qed

text \<open>
  The label of an unknown key is not the label of ``neutral'', in either language; the
  English label of ``neutral'' is the key, the Chinese one the word of the table.
\<close>

theorem unknown_label_is_key:
  "moodLabel Zh ''unknown_key'' \<noteq> moodLabel Zh ''neutral''
   \<and> moodLabel En ''unknown_key'' \<noteq> moodLabel En ''neutral''
   \<and> moodLabel Zh ''unknown_key'' = Own ''unknown_key''
   \<and> moodLabel Zh ''neutral'' = Own [CHR 0xE5, CHR 0xB9, CHR 0xB3, CHR 0xE6, CHR 0xB7, CHR 0xA1]"
  by (simp add: moodLabel_def get_property_def MOOD_LABELS_def Object_prototype_def)

text \<open>
  An inherited name is not in the enumeration, and it is not replaced by ``neutral'': the
  palette read finds the inherited property, and the colour is \<open>undefined\<close>.
\<close>

lemma inherited_key_no_colour:
  "getMoodColor ''constructor'' 7 Strong = Inr None
   \<and> getMoodColor ''constructor'' 7 Strong \<noteq> getMoodColor ''neutral'' 7 Strong"
  by (simp add: getMoodColor_def safeKey_def get_property_def MOOD_PALETTE_def Object_prototype_def)

text \<open>
  C9. For every mood key of the palette and every integer score from 1 to 10, the score
  resolver gives the strong colour of the key for 8, 9 and 10, the medium colour for
  4, 5, 6 and 7, and the light colour for 1, 2 and 3; for every key and score it agrees
  with the tier resolver at the tier of the score.
\<close>

theorem score_tiers:
  "(map_of MOOD_PALETTE k = Some d \<longrightarrow>
      (s \<in> {8, 9, 10} \<longrightarrow> getMoodColorByScore k s = Inr (Some (strong d)))
      \<and> (s \<in> {4, 5, 6, 7} \<longrightarrow> getMoodColorByScore k s = Inr (Some (medium d)))
      \<and> (s \<in> {1, 2, 3} \<longrightarrow> getMoodColorByScore k s = Inr (Some (light d))))
   \<and> getMoodColorByScore k' s =
       getMoodColor k' s (if s \<ge> 8 then Strong else if s \<ge> 4 then Medium else Light)"
proof -
  have "getMoodColorByScore k' s =
       getMoodColor k' s (if s \<ge> 8 then Strong else if s \<ge> 4 then Medium else Light)"
    by (simp add: getMoodColorByScore_def getMoodColor_def)
  moreover have "s \<in> {8, 9, 10} \<Longrightarrow> s \<ge> 8" by auto
  moreover have "s \<in> {4, 5, 6, 7} \<Longrightarrow> s \<ge> 4 \<and> \<not> s \<ge> 8" by auto
  moreover have "s \<in> {1, 2, 3} \<Longrightarrow> \<not> s \<ge> 4 \<and> \<not> s \<ge> 8" by auto
  ultimately show ?thesis
    by (auto simp: getMoodColorByScore_defined)
qed

theorem score_tiers_example:
  "map_of MOOD_PALETTE ''happy'' = Some \<lparr>light = ''#FFF5D1'', medium = ''#FFD166'', strong = ''#F4B942''\<rparr>
   \<and> getMoodColorByScore ''happy'' 8 = Inr (Some ''#F4B942'')
   \<and> getMoodColorByScore ''happy'' 10 = Inr (Some ''#F4B942'')
   \<and> getMoodColorByScore ''happy'' 7 = Inr (Some ''#FFD166'')
   \<and> getMoodColorByScore ''happy'' 4 = Inr (Some ''#FFD166'')
   \<and> getMoodColorByScore ''happy'' 3 = Inr (Some ''#FFF5D1'')
   \<and> getMoodColorByScore ''happy'' 1 = Inr (Some ''#FFF5D1'')"
proof -
  have h: "map_of MOOD_PALETTE ''happy'' = Some \<lparr>light = ''#FFF5D1'', medium = ''#FFD166'', strong = ''#F4B942''\<rparr>"
    by (simp add: MOOD_PALETTE_def)
  show ?thesis
    using h score_tiers [where k = "''happy''" and k' = "''happy''" and s = 8 and d = "\<lparr>light = ''#FFF5D1'', medium = ''#FFD166'', strong = ''#F4B942''\<rparr>"]
      score_tiers [where k = "''happy''" and k' = "''happy''" and s = 10 and d = "\<lparr>light = ''#FFF5D1'', medium = ''#FFD166'', strong = ''#F4B942''\<rparr>"]
      score_tiers [where k = "''happy''" and k' = "''happy''" and s = 7 and d = "\<lparr>light = ''#FFF5D1'', medium = ''#FFD166'', strong = ''#F4B942''\<rparr>"]
      score_tiers [where k = "''happy''" and k' = "''happy''" and s = 4 and d = "\<lparr>light = ''#FFF5D1'', medium = ''#FFD166'', strong = ''#F4B942''\<rparr>"]
      score_tiers [where k = "''happy''" and k' = "''happy''" and s = 3 and d = "\<lparr>light = ''#FFF5D1'', medium = ''#FFD166'', strong = ''#F4B942''\<rparr>"]
      score_tiers [where k = "''happy''" and k' = "''happy''" and s = 1 and d = "\<lparr>light = ''#FFF5D1'', medium = ''#FFD166'', strong = ''#F4B942''\<rparr>"]
    by simp
qed

section \<open>The analysis client\<close>

lemma then_try_simps [simp]:
  "then_try (Inl e) f = Inl e"
  "then_try (Inr v) f = f v"
  by (simp_all add: then_try_def)

lemma or_else_None [simp]: "or_else None d = d"
  by (simp add: or_else_def)

lemma or_maybe_None [simp]: "or_maybe None d = d"
  by (simp add: or_maybe_def)

lemma truthy_or_else: "truthy d \<Longrightarrow> truthy (or_else v d)"
  by (simp add: or_else_def split: option.splits)

lemma or_maybe_cases: "(\<exists>x. or_maybe v d = Some x \<and> truthy x) \<or> or_maybe v d = d"
  by (simp add: or_maybe_def split: option.splits)

lemma no_key_not_quota:
  "\<not> isQuotaError (Error ''API Key missing. Please set it in Settings.'')"
  by simp

lemma getApiKey_unconfigured:
  assumes "case openai_api_key (storage env) of None \<Rightarrow> True | Some k \<Rightarrow> \<not> prefix ''sk-'' k"
    and "process_env_API_KEY env = None \<or> process_env_API_KEY env = Some []"
  shows "getApiKey env = []"
  using assms by (auto simp: getApiKey_def DEFAULT_KEY_def split: option.splits)

lemma callGPT_no_key:
  "getApiKey env = [] \<Longrightarrow>
     callGPT env ms model jm = (Inl (Error ''API Key missing. Please set it in Settings.''), [])"
  by (simp add: callGPT_def)

lemma callWhisper_no_key:
  "getApiKey env = [] \<Longrightarrow>
     callWhisper env audio = (Inl (Error ''API Key missing. Please set it in Settings.''), [])"
  by (simp add: callWhisper_def)

lemma finalTranscription_no_key:
  "getApiKey env = [] \<Longrightarrow> snd (finalTranscription env audio textInput) = []"
  by (simp add: finalTranscription_def callWhisper_no_key split: option.splits)

lemma analyze_try_no_key:
  assumes "getApiKey env = []"
  shows "analyze_try env audio textInput imgs =
     (Inl (Error ''API Key missing. Please set it in Settings.''), [])"
proof -
  obtain ft reqs where f: "finalTranscription env audio textInput = (ft, reqs)"
    by (cases "finalTranscription env audio textInput")
  have "snd (finalTranscription env audio textInput) = []"
    using assms by (rule finalTranscription_no_key)
  with f have "reqs = []" by simp
  with f assms show ?thesis
    by (simp add: analyze_try_def callGPT_no_key)
qed

text \<open>
  C5. With no credential configured (no stored key that starts with the provider's prefix,
  and a build-time default that is empty or undefined), the analysis sends no request to
  the provider, whatever the audio, the text and the images, and returns the placeholder
  result of the \<open>catch\<close> block, whose mood key is ``neutral''.
\<close>

theorem no_credential_no_request:
  assumes "case openai_api_key (storage env) of None \<Rightarrow> True | Some k \<Rightarrow> \<not> prefix ''sk-'' k"
    and "process_env_API_KEY env = None \<or> process_env_API_KEY env = Some []"
  shows "snd (analyzeJournalEntry env audio textInput imgs) = []
       \<and> fst (analyzeJournalEntry env audio textInput imgs) = Inr (generic_fallback textInput)
       \<and> ar_moodKey (generic_fallback textInput) = JStr ''neutral''"
proof -
  from assms have "getApiKey env = []" by (rule getApiKey_unconfigured)
  then have "analyze_try env audio textInput imgs =
     (Inl (Error ''API Key missing. Please set it in Settings.''), [])"
    by (rule analyze_try_no_key)
  then have "analyzeJournalEntry env audio textInput imgs = (Inr (generic_fallback textInput), [])"
    unfolding analyzeJournalEntry_def using no_key_not_quota by simp
  then show ?thesis by (simp add: generic_fallback_def)
qed

theorem no_credential_no_request_example:
  "(case openai_api_key (storage unconfigured) of None \<Rightarrow> True | Some k \<Rightarrow> \<not> prefix ''sk-'' k)
   \<and> process_env_API_KEY unconfigured = Some []
   \<and> analyzeJournalEntry unconfigured (Some ''data:audio/webm;base64,GkXf'') ''Long day at work''
        [''data:image/png;base64,iVBOR''] =
      (Inr (generic_fallback ''Long day at work''), [])
   \<and> ar_moodKey (generic_fallback ''Long day at work'') = JStr ''neutral''"
proof -
  have a: "case openai_api_key (storage unconfigured) of None \<Rightarrow> True | Some k \<Rightarrow> \<not> prefix ''sk-'' k"
    by (simp add: unconfigured_def empty_storage_def)
  have b: "process_env_API_KEY unconfigured = Some []"
    by (simp add: unconfigured_def)
  then have b': "process_env_API_KEY unconfigured = None \<or> process_env_API_KEY unconfigured = Some []"
    by simp
  show ?thesis
    using a b no_credential_no_request [OF a b', where audio = "Some ''data:audio/webm;base64,GkXf''"
        and textInput = "''Long day at work''" and imgs = "[''data:image/png;base64,iVBOR'']"]
    by (simp add: prod_eq_iff)
qed

section \<open>The analysis client: the quota fallback\<close>

lemma insufficient_quota_isQuotaError:
  "js_includes msg ''insufficient_quota'' \<Longrightarrow> isQuotaError (Error msg)"
  by simp

lemma analyze_try_completion_raises:
  assumes "fst (callGPT env
             (messages (Number_toString env) (fst (finalTranscription env audio textInput)) imgs)
             ''gpt-4o'' True) = Inl e"
  shows "fst (analyze_try env audio textInput imgs) = Inl e"
proof -
  obtain ft reqs1 where f: "finalTranscription env audio textInput = (ft, reqs1)"
    by (cases "finalTranscription env audio textInput")
  obtain reply reqs2
    where g: "callGPT env (messages (Number_toString env) ft imgs) ''gpt-4o'' True = (reply, reqs2)"
    by (cases "callGPT env (messages (Number_toString env) ft imgs) ''gpt-4o'' True")
  from assms f g have "reply = Inl e" by simp
  with f g show ?thesis by (simp add: analyze_try_def)
qed

lemma analyzeJournalEntry_catch:
  assumes "fst (analyze_try env audio textInput imgs) = Inl e"
  shows "fst (analyzeJournalEntry env audio textInput imgs) =
       Inr (if isQuotaError e then getMockAnalysis textInput else generic_fallback textInput)"
proof -
  obtain r reqs where t: "analyze_try env audio textInput imgs = (r, reqs)"
    by (cases "analyze_try env audio textInput imgs")
  with assms have "r = Inl e" by simp
  with t show ?thesis by (simp add: analyzeJournalEntry_def)
qed

lemma gear_is_not_demo: "gear_emoji \<noteq> demo_emoji"
  by (simp add: gear_emoji_def demo_emoji_def)

text \<open>
  C4. When the analysis call to the chat endpoint fails with an error whose message
  contains ``insufficient\_quota'', the analysis returns the mock: mood key ``happy'',
  score 8, the demo emoji and description, the two setup tasks, and as transcription the
  text input when there is one, the fixed demo transcription when the text input is
  empty. The mock differs from the placeholder of the other errors, whose mood key is
  ``neutral'' and whose emoji is the gear.
\<close>

theorem quota_fallback:
  assumes "fst (callGPT env
             (messages (Number_toString env) (fst (finalTranscription env audio textInput)) imgs)
             ''gpt-4o'' True) = Inl (Error msg)"
    and "js_includes msg ''insufficient_quota''"
  shows "fst (analyzeJournalEntry env audio textInput imgs) = Inr (getMockAnalysis textInput)
       \<and> ar_moodKey (getMockAnalysis textInput) = JStr ''happy''
       \<and> ar_transcription (getMockAnalysis textInput) =
           Some (JStr (if textInput \<noteq> [] then textInput else demo_transcription))
       \<and> ar_moodKey (generic_fallback textInput) = JStr ''neutral''
       \<and> ar_moodEmoji (generic_fallback textInput) = JStr gear_emoji
       \<and> ar_moodEmoji (getMockAnalysis textInput) \<noteq> ar_moodEmoji (generic_fallback textInput)
       \<and> getMockAnalysis textInput \<noteq> generic_fallback textInput"
proof -
  from assms(1) have "fst (analyze_try env audio textInput imgs) = Inl (Error msg)"
    by (rule analyze_try_completion_raises)
  then have "fst (analyzeJournalEntry env audio textInput imgs) =
      Inr (if isQuotaError (Error msg) then getMockAnalysis textInput else generic_fallback textInput)"
    by (rule analyzeJournalEntry_catch)
  with assms(2) have "fst (analyzeJournalEntry env audio textInput imgs) = Inr (getMockAnalysis textInput)"
    by simp
  moreover have "ar_moodEmoji (getMockAnalysis textInput) \<noteq> ar_moodEmoji (generic_fallback textInput)"
    using gear_is_not_demo by (auto simp: getMockAnalysis_def generic_fallback_def)
  moreover from this have "getMockAnalysis textInput \<noteq> generic_fallback textInput" by auto
  ultimately show ?thesis
    by (simp add: getMockAnalysis_def generic_fallback_def)
qed

lemma getApiKey_examples:
  "getApiKey out_of_quota = ''sk-example''"
  "getApiKey transcription_out_of_quota = ''sk-example''"
  "getApiKey transcription_textless = ''sk-example''"
  by (simp_all add: getApiKey_def out_of_quota_def transcription_out_of_quota_def
      transcription_textless_def configured_storage_def DEFAULT_KEY_def)

lemma quota_body_message:
  "error_message num quota_error_body dflt =
     Inr ''You exceeded your current quota (insufficient_quota).''"
  by (simp add: error_message_def quota_error_body_def)

lemma callGPT_out_of_quota:
  "fst (callGPT out_of_quota ms model jm) =
     Inl (Error ''You exceeded your current quota (insufficient_quota).'')"
  by (simp add: callGPT_def getApiKey_examples Let_def)
    (simp add: out_of_quota_def refuse_all_def quota_body_message)

lemma quota_message_includes:
  "js_includes ''You exceeded your current quota (insufficient_quota).'' ''insufficient_quota''"
  by simp

theorem quota_fallback_example:
  "fst (callGPT out_of_quota
          (messages (Number_toString out_of_quota) (fst (finalTranscription out_of_quota None [])) [])
          ''gpt-4o'' True)
     = Inl (Error ''You exceeded your current quota (insufficient_quota).'')
   \<and> js_includes ''You exceeded your current quota (insufficient_quota).'' ''insufficient_quota''
   \<and> fst (analyzeJournalEntry out_of_quota None [] []) = Inr (getMockAnalysis [])
   \<and> ar_moodKey (getMockAnalysis []) = JStr ''happy''
   \<and> ar_transcription (getMockAnalysis []) = Some (JStr demo_transcription)"
  using quota_fallback [OF callGPT_out_of_quota quota_message_includes, where audio = None
      and textInput = "[]" and imgs = "[]"]
    callGPT_out_of_quota [where ms = "messages (Number_toString out_of_quota)
        (fst (finalTranscription out_of_quota None [])) []"
      and model = "''gpt-4o''" and jm = True] quota_message_includes
  by simp

lemma callWhisper_transcription_out_of_quota:
  "callWhisper transcription_out_of_quota ''data:audio/webm;base64,GkXf'' =
     (Inl (Error ''You exceeded your current quota (insufficient_quota).''),
      [audio_transcriptions ''sk-example'' ''data:audio/webm;base64,GkXf''])"
  by (simp add: callWhisper_def getApiKey_examples Let_def)
    (simp add: transcription_out_of_quota_def decode_any_def quota_body_message)

lemma finalTranscription_transcription_out_of_quota:
  "fst (finalTranscription transcription_out_of_quota (Some ''data:audio/webm;base64,GkXf'')
         ''Long day at work'') = Some (JStr (''Long day at work'' @ whisper_quota_note))"
  by (simp add: finalTranscription_def callWhisper_transcription_out_of_quota)

lemma choice_content_calm: "choice_content calm_completion = Inr (Some (JStr calm_reply_text))"
  by (simp add: choice_content_def calm_completion_def)

lemma callGPT_answer_calm:
  "fst (callGPT transcription_out_of_quota ms model jm) = Inr (Some (JStr calm_reply_text))"
  "fst (callGPT transcription_textless ms model jm) = Inr (Some (JStr calm_reply_text))"
  by (simp_all add: callGPT_def getApiKey_examples Let_def)
    (simp_all add: transcription_out_of_quota_def transcription_textless_def choice_content_calm)

lemma example_parsed:
  "JSON_parse transcription_out_of_quota
     (string_of_value (Number_toString transcription_out_of_quota) (Some (JStr calm_reply_text))) =
   Inr (JObj [(''moodKey'', JStr ''calm'')])"
  "JSON_parse transcription_textless
     (string_of_value (Number_toString transcription_textless) (Some (JStr calm_reply_text))) =
   Inr (JObj [(''moodKey'', JStr ''calm'')])"
  by (simp_all add: transcription_out_of_quota_def transcription_textless_def string_of_value_def
      example_JSON_parse_def)

lemma result_of_parsed_obj:
  "result_of_parsed (JObj kvs) ft =
     Inr \<lparr>ar_transcription = or_maybe (map_of kvs ''transcription'') ft,
          ar_moodEmoji = or_else (map_of kvs ''moodEmoji'') (JStr memo_emoji),
          ar_moodDescription = or_else (map_of kvs ''moodDescription'') (JStr recording_description),
          ar_moodKey = or_else (map_of kvs ''moodKey'') (JStr ''neutral''),
          ar_moodScore = or_else (map_of kvs ''moodScore'') (JNum 5),
          ar_tasks = or_else (map_of kvs ''tasks'') (JArr [])\<rparr>"
  by (simp add: result_of_parsed_def)

lemma analyze_try_parsed:
  assumes "fst (callGPT env
             (messages (Number_toString env) (fst (finalTranscription env audio textInput)) imgs)
             ''gpt-4o'' True) = Inr jsonStr"
    and "JSON_parse env (string_of_value (Number_toString env) jsonStr) = Inr parsed"
  shows "fst (analyze_try env audio textInput imgs) =
     result_of_parsed parsed (fst (finalTranscription env audio textInput))"
proof -
  obtain ft reqs1 where f: "finalTranscription env audio textInput = (ft, reqs1)"
    by (cases "finalTranscription env audio textInput")
  obtain reply reqs2
    where g: "callGPT env (messages (Number_toString env) ft imgs) ''gpt-4o'' True = (reply, reqs2)"
    by (cases "callGPT env (messages (Number_toString env) ft imgs) ''gpt-4o'' True")
  from assms(1) f g have "reply = Inr jsonStr" by simp
  with f g assms(2) show ?thesis by (simp add: analyze_try_def)
qed

lemma analyzeJournalEntry_returned:
  assumes "fst (analyze_try env audio textInput imgs) = Inr res"
  shows "fst (analyzeJournalEntry env audio textInput imgs) = Inr res"
proof -
  obtain r reqs where t: "analyze_try env audio textInput imgs = (r, reqs)"
    by (cases "analyze_try env audio textInput imgs")
  with assms have "r = Inr res" by simp
  with t show ?thesis by (simp add: analyzeJournalEntry_def)
qed

text \<open>
  The text input is kept by the mock; and a quota failure of the transcription call alone
  does not lead to the mock: the note is appended to the text and the analysis goes on.
\<close>

theorem quota_fallback_keeps_text:
  "fst (analyzeJournalEntry out_of_quota None ''Long day at work'' []) =
     Inr (getMockAnalysis ''Long day at work'')
   \<and> ar_transcription (getMockAnalysis ''Long day at work'') = Some (JStr ''Long day at work'')
   \<and> ar_transcription (getMockAnalysis ''Long day at work'') \<noteq> Some (JStr demo_transcription)
   \<and> fst (callWhisper transcription_out_of_quota ''data:audio/webm;base64,GkXf'') =
       Inl (Error ''You exceeded your current quota (insufficient_quota).'')
   \<and> fst (analyzeJournalEntry transcription_out_of_quota (Some ''data:audio/webm;base64,GkXf'')
           ''Long day at work'' []) =
       Inr \<lparr>ar_transcription = Some (JStr (''Long day at work'' @ whisper_quota_note)),
            ar_moodEmoji = JStr memo_emoji,
            ar_moodDescription = JStr recording_description,
            ar_moodKey = JStr ''calm'',
            ar_moodScore = JNum 5,
            ar_tasks = JArr []\<rparr>"
proof -
  have "fst (analyze_try out_of_quota None ''Long day at work'' []) =
      Inl (Error ''You exceeded your current quota (insufficient_quota).'')"
    using callGPT_out_of_quota by (rule analyze_try_completion_raises)
  then have "fst (analyzeJournalEntry out_of_quota None ''Long day at work'' []) =
      Inr (if isQuotaError (Error ''You exceeded your current quota (insufficient_quota).'')
           then getMockAnalysis ''Long day at work'' else generic_fallback ''Long day at work'')"
    by (rule analyzeJournalEntry_catch)
  then have a: "fst (analyzeJournalEntry out_of_quota None ''Long day at work'' []) =
      Inr (getMockAnalysis ''Long day at work'')"
    using insufficient_quota_isQuotaError [OF quota_message_includes] by simp
  have b: "ar_transcription (getMockAnalysis ''Long day at work'') = Some (JStr ''Long day at work'')"
    "ar_transcription (getMockAnalysis ''Long day at work'') \<noteq> Some (JStr demo_transcription)"
    by (simp_all add: getMockAnalysis_def demo_transcription_def)
  have "fst (analyze_try transcription_out_of_quota (Some ''data:audio/webm;base64,GkXf'')
           ''Long day at work'' []) =
      result_of_parsed (JObj [(''moodKey'', JStr ''calm'')])
        (fst (finalTranscription transcription_out_of_quota (Some ''data:audio/webm;base64,GkXf'')
           ''Long day at work''))"
    using callGPT_answer_calm(1) example_parsed(1) by (rule analyze_try_parsed)
  then have "fst (analyze_try transcription_out_of_quota (Some ''data:audio/webm;base64,GkXf'')
           ''Long day at work'' []) =
       Inr \<lparr>ar_transcription = Some (JStr (''Long day at work'' @ whisper_quota_note)),
            ar_moodEmoji = JStr memo_emoji,
            ar_moodDescription = JStr recording_description,
            ar_moodKey = JStr ''calm'',
            ar_moodScore = JNum 5,
            ar_tasks = JArr []\<rparr>"
    by (simp add: result_of_parsed_obj finalTranscription_transcription_out_of_quota or_else_def)
  then have c: "fst (analyzeJournalEntry transcription_out_of_quota (Some ''data:audio/webm;base64,GkXf'')
           ''Long day at work'' []) =
       Inr \<lparr>ar_transcription = Some (JStr (''Long day at work'' @ whisper_quota_note)),
            ar_moodEmoji = JStr memo_emoji,
            ar_moodDescription = JStr recording_description,
            ar_moodKey = JStr ''calm'',
            ar_moodScore = JNum 5,
            ar_tasks = JArr []\<rparr>"
    by (rule analyzeJournalEntry_returned)
  from a b c show ?thesis
    by (simp add: callWhisper_transcription_out_of_quota)
qed

section \<open>The analysis client: what it returns\<close>

lemma placeholders_truthy: "memo_emoji \<noteq> []" "recording_description \<noteq> []"
  by (simp_all add: memo_emoji_def recording_description_def)

lemma result_of_parsed_populated:
  assumes "result_of_parsed parsed ft = Inr r"
  shows "truthy (ar_moodEmoji r) \<and> truthy (ar_moodDescription r) \<and> truthy (ar_moodKey r)
       \<and> truthy (ar_moodScore r) \<and> truthy (ar_tasks r)
       \<and> ((\<exists>x. ar_transcription r = Some x \<and> truthy x) \<or> ar_transcription r = ft)"
proof -
  from assms have "parsed \<noteq> JNull" by (auto simp: result_of_parsed_def)
  then obtain p where p: "\<And>k. get_prop (Some parsed) k = Inr (p k)"
    by (cases parsed) auto
  with assms have r: "r =
      \<lparr>ar_transcription = or_maybe (p ''transcription'') ft,
       ar_moodEmoji = or_else (p ''moodEmoji'') (JStr memo_emoji),
       ar_moodDescription = or_else (p ''moodDescription'') (JStr recording_description),
       ar_moodKey = or_else (p ''moodKey'') (JStr ''neutral''),
       ar_moodScore = or_else (p ''moodScore'') (JNum 5),
       ar_tasks = or_else (p ''tasks'') (JArr [])\<rparr>"
    by (simp add: result_of_parsed_def)
  show ?thesis
    unfolding r using or_maybe_cases [of "p ''transcription''" ft]
    by (simp add: truthy_or_else placeholders_truthy)
qed

lemma fallbacks_populated:
  "truthy (ar_moodEmoji (getMockAnalysis t)) \<and> truthy (ar_moodDescription (getMockAnalysis t))
   \<and> truthy (ar_moodKey (getMockAnalysis t)) \<and> truthy (ar_moodScore (getMockAnalysis t))
   \<and> truthy (ar_tasks (getMockAnalysis t))
   \<and> (\<exists>x. ar_transcription (getMockAnalysis t) = Some x \<and> truthy x)"
  "truthy (ar_moodEmoji (generic_fallback t)) \<and> truthy (ar_moodDescription (generic_fallback t))
   \<and> truthy (ar_moodKey (generic_fallback t)) \<and> truthy (ar_moodScore (generic_fallback t))
   \<and> truthy (ar_tasks (generic_fallback t))
   \<and> (\<exists>x. ar_transcription (generic_fallback t) = Some x \<and> truthy x)"
  by (simp_all add: getMockAnalysis_def generic_fallback_def demo_emoji_def demo_description_def
      demo_transcription_def gear_emoji_def configure_key_description_def analysis_unfinished_def)

lemma analyze_try_returned:
  assumes "fst (analyze_try env audio textInput imgs) = Inr res"
  shows "\<exists>parsed. result_of_parsed parsed (fst (finalTranscription env audio textInput)) = Inr res"
proof -
  obtain ft reqs1 where f: "finalTranscription env audio textInput = (ft, reqs1)"
    by (cases "finalTranscription env audio textInput")
  obtain reply reqs2
    where g: "callGPT env (messages (Number_toString env) ft imgs) ''gpt-4o'' True = (reply, reqs2)"
    by (cases "callGPT env (messages (Number_toString env) ft imgs) ''gpt-4o'' True")
  from assms f g show ?thesis
    by (cases reply) (auto simp: analyze_try_def split: sum.splits)
qed

text \<open>
  For every input and every behaviour of the provider and of the browser the analysis
  returns a result to its caller and raises nothing. In the result the emoji, the
  description, the key, the score and the tasks are values that count as true. The
  transcription is one too, or else it is the value of \<open>finalTranscription\<close> before the
  call, whatever that is.
\<close>

lemma analyzeJournalEntry_never_raises:
  "\<exists>r. fst (analyzeJournalEntry env audio textInput imgs) = Inr r
       \<and> truthy (ar_moodEmoji r) \<and> truthy (ar_moodDescription r) \<and> truthy (ar_moodKey r)
       \<and> truthy (ar_moodScore r) \<and> truthy (ar_tasks r)
       \<and> ((\<exists>x. ar_transcription r = Some x \<and> truthy x)
           \<or> ar_transcription r = fst (finalTranscription env audio textInput))"
proof (cases "fst (analyze_try env audio textInput imgs)")
  case (Inl e)
  then have "fst (analyzeJournalEntry env audio textInput imgs) =
       Inr (if isQuotaError e then getMockAnalysis textInput else generic_fallback textInput)"
    by (rule analyzeJournalEntry_catch)
  then show ?thesis
    using fallbacks_populated [of textInput] by (cases "isQuotaError e") simp_all
next
  case (Inr res)
  then have "fst (analyzeJournalEntry env audio textInput imgs) = Inr res"
    by (rule analyzeJournalEntry_returned)
  moreover from Inr obtain parsed
    where "result_of_parsed parsed (fst (finalTranscription env audio textInput)) = Inr res"
    using analyze_try_returned by blast
  ultimately show ?thesis
    using result_of_parsed_populated by blast
qed

text \<open>
  When the provider's reply parses to an object, each field of the result is the object's
  field if it has one that counts as true, and otherwise the default: the memo emoji, the
  placeholder phrase, ``neutral'', 5, the empty list, and for the transcription the value
  of \<open>finalTranscription\<close>.
\<close>

lemma analyzeJournalEntry_defaults:
  assumes "fst (callGPT env
             (messages (Number_toString env) (fst (finalTranscription env audio textInput)) imgs)
             ''gpt-4o'' True) = Inr jsonStr"
    and "JSON_parse env (string_of_value (Number_toString env) jsonStr) = Inr (JObj kvs)"
  shows "fst (analyzeJournalEntry env audio textInput imgs) =
     Inr \<lparr>ar_transcription =
            or_maybe (map_of kvs ''transcription'') (fst (finalTranscription env audio textInput)),
          ar_moodEmoji = or_else (map_of kvs ''moodEmoji'') (JStr memo_emoji),
          ar_moodDescription = or_else (map_of kvs ''moodDescription'') (JStr recording_description),
          ar_moodKey = or_else (map_of kvs ''moodKey'') (JStr ''neutral''),
          ar_moodScore = or_else (map_of kvs ''moodScore'') (JNum 5),
          ar_tasks = or_else (map_of kvs ''tasks'') (JArr [])\<rparr>"
proof -
  from assms have "fst (analyze_try env audio textInput imgs) =
      result_of_parsed (JObj kvs) (fst (finalTranscription env audio textInput))"
    by (rule analyze_try_parsed)
  then show ?thesis
    by (simp add: result_of_parsed_obj analyzeJournalEntry_returned)
qed

text \<open>
  The value of \<open>finalTranscription\<close> is a string when there is no audio, when there is a
  text input, and when the transcription call raises; with audio and no text input it is
  what the transcription reply has as \<open>text\<close>.
\<close>

lemma finalTranscription_string:
  "audio = None \<or> audio = Some [] \<or> textInput \<noteq> [] \<Longrightarrow>
     \<exists>s. fst (finalTranscription env audio textInput) = Some (JStr s)"
  by (cases "callWhisper env (the audio)"; cases "fst (callWhisper env (the audio))")
    (auto simp: finalTranscription_def split: option.splits)

lemma callWhisper_textless:
  "fst (callWhisper transcription_textless ''data:audio/webm;base64,GkXf'') = Inr None"
  by (simp add: callWhisper_def getApiKey_examples Let_def)
    (simp add: transcription_textless_def decode_any_def)

lemma finalTranscription_textless:
  "fst (finalTranscription transcription_textless (Some ''data:audio/webm;base64,GkXf'') []) = None"
proof -
  obtain r reqs
    where w: "callWhisper transcription_textless ''data:audio/webm;base64,GkXf'' = (r, reqs)"
    by (cases "callWhisper transcription_textless ''data:audio/webm;base64,GkXf''")
  with callWhisper_textless have "r = Inr None" by simp
  with w show ?thesis by (simp add: finalTranscription_def)
qed

text \<open>
  C3. The analysis of a voice recording with no typed text, when the transcription
  endpoint answers \<open>ok\<close> with a body that has no \<open>text\<close> and the reply to the analysis
  has no transcription either: \<open>callWhisper\<close> returns \<open>undefined\<close>, which becomes the
  value of \<open>finalTranscription\<close> and then, through
  \<open>parsed.transcription || finalTranscription\<close>, the transcription of the result. The
  analysis returns normally, with the other five fields at the reply's value or their
  default, and with a transcription that is \<open>undefined\<close>.
\<close>

theorem analysis_transcription_undefined:
  "fst (callWhisper transcription_textless ''data:audio/webm;base64,GkXf'') = Inr None
   \<and> fst (finalTranscription transcription_textless (Some ''data:audio/webm;base64,GkXf'') []) = None
   \<and> fst (analyzeJournalEntry transcription_textless (Some ''data:audio/webm;base64,GkXf'') [] []) =
       Inr \<lparr>ar_transcription = None,
            ar_moodEmoji = JStr memo_emoji,
            ar_moodDescription = JStr recording_description,
            ar_moodKey = JStr ''calm'',
            ar_moodScore = JNum 5,
            ar_tasks = JArr []\<rparr>"
proof -
  have "fst (analyzeJournalEntry transcription_textless (Some ''data:audio/webm;base64,GkXf'') [] []) =
     Inr \<lparr>ar_transcription =
            or_maybe (map_of [(''moodKey'', JStr ''calm'')] ''transcription'')
              (fst (finalTranscription transcription_textless (Some ''data:audio/webm;base64,GkXf'') [])),
          ar_moodEmoji = or_else (map_of [(''moodKey'', JStr ''calm'')] ''moodEmoji'') (JStr memo_emoji),
          ar_moodDescription =
            or_else (map_of [(''moodKey'', JStr ''calm'')] ''moodDescription'') (JStr recording_description),
          ar_moodKey = or_else (map_of [(''moodKey'', JStr ''calm'')] ''moodKey'') (JStr ''neutral''),
          ar_moodScore = or_else (map_of [(''moodKey'', JStr ''calm'')] ''moodScore'') (JNum 5),
          ar_tasks = or_else (map_of [(''moodKey'', JStr ''calm'')] ''tasks'') (JArr [])\<rparr>"
    using callGPT_answer_calm(2) example_parsed(2) by (rule analyzeJournalEntry_defaults)
  then show ?thesis
    by (simp add: callWhisper_textless finalTranscription_textless or_else_def)
qed

end
